theory Spec2Isabelle
  imports Complex_Main
begin

section \<open>Python exceptions and floats\<close>

datatype py_error =
  AttributeError | KeyError | TypeError | ValueError | OverflowError | URLError

text \<open>
  A Python \<^verbatim>\<open>float\<close> is an IEEE 754 binary64 number: a finite value, an infinity or
  a NaN. The two zeros are not told apart. A finite float carries the real number it
  denotes; the values that can occur are those that rounding leaves unchanged
  (\<open>is_float\<close> below).
\<close>

datatype pyfloat = Finite real | PosInf | NegInf | NaN

text \<open>Rounding a real number to the nearest integer, ties to the even one.\<close>

definition round_half_even :: "real \<Rightarrow> int" where
  "round_half_even t =
     (let f = \<lfloor>t\<rfloor>; d = t - of_int f
      in if d < 1 / 2 then f else if 1 / 2 < d then f + 1
         else if even f then f else f + 1)"

text \<open>
  The exponent of the unit in the last place of the binary64 numbers around \<open>x\<close>: 53
  significant bits in the binade of \<open>x\<close>, and never below \<open>-1074\<close>, the exponent of
  the subnormal spacing.
\<close>

definition ulp_exponent :: "real \<Rightarrow> int" where
  "ulp_exponent x = max (\<lfloor>log 2 \<bar>x\<bar>\<rfloor> - 52) (- 1074)"

text \<open>\<open>x\<close> rounded to the nearest multiple of that unit, ties to even.\<close>

definition round_value :: "real \<Rightarrow> real" where
  "round_value x =
     of_int (round_half_even (x / 2 powr of_int (ulp_exponent x)))
       * 2 powr of_int (ulp_exponent x)"

text \<open>
  The float nearest to a real number, as every float operation delivers it: the
  rounded value, or an infinity when that value has left the range of the finite
  floats.
\<close>

definition round_double :: "real \<Rightarrow> pyfloat" where
  "round_double x =
     (if x = 0 then Finite 0
      else let y = round_value x
           in if 2 ^ 1024 \<le> y then PosInf
              else if y \<le> - (2 ^ 1024) then NegInf
              else Finite y)"


text \<open>
  The conversion of an \<^verbatim>\<open>int\<close> to a \<^verbatim>\<open>float\<close>, as \<^verbatim>\<open>float(n)\<close> and as the
  arithmetic of a float with an int perform it: correctly rounded, and
  \<^verbatim>\<open>OverflowError\<close> when the integer is too large for a finite float.
\<close>

definition float_of_int :: "int \<Rightarrow> py_error + pyfloat" where
  "float_of_int n =
     (case round_double (of_int n) of
        Finite y \<Rightarrow> Inr (Finite y)
      | _ \<Rightarrow> Inl OverflowError)"

definition float_sign :: "pyfloat \<Rightarrow> real" where
  "float_sign a =
     (case a of Finite x \<Rightarrow> sgn x | PosInf \<Rightarrow> 1 | NegInf \<Rightarrow> - 1 | NaN \<Rightarrow> 0)"

text \<open>
  The product of two floats: the rounded product of two finite values; with an
  infinity, the infinity of the product's sign, and NaN for infinity times zero.
\<close>

definition float_mul :: "pyfloat \<Rightarrow> pyfloat \<Rightarrow> pyfloat" where
  "float_mul a b =
     (if a = NaN \<or> b = NaN then NaN
      else case (a, b) of
        (Finite x, Finite y) \<Rightarrow> round_double (x * y)
      | _ \<Rightarrow>
          if float_sign a * float_sign b = 0 then NaN
          else if 0 < float_sign a * float_sign b then PosInf
          else NegInf)"

text \<open>The comparison \<^verbatim>\<open>a <= b\<close> of two floats; it is false when one of them is NaN.\<close>

definition float_le :: "pyfloat \<Rightarrow> pyfloat \<Rightarrow> bool" where
  "float_le a b =
     (case (a, b) of
        (NaN, _) \<Rightarrow> False
      | (_, NaN) \<Rightarrow> False
      | (NegInf, _) \<Rightarrow> True
      | (_, PosInf) \<Rightarrow> True
      | (Finite x, Finite y) \<Rightarrow> x \<le> y
      | _ \<Rightarrow> False)"

section \<open>The rate limiter (download\_manager.py)\<close>

text \<open>
  \<^verbatim>\<open>class RateLimiter\<close> has four fields. \<^verbatim>\<open>base_delay\<close> is a float. \<^verbatim>\<open>last_request\<close> is
  a reading of the clock; clock readings and the differences of times are read as
  real numbers. The two counters start at zero and are only ever incremented or reset
  to zero, so they are natural numbers.
\<close>

record RateLimiter =
  base_delay :: pyfloat
  last_request :: real
  consecutive_failures :: nat
  total_requests :: nat

definition RateLimiter_init :: "pyfloat \<Rightarrow> RateLimiter" where
  "RateLimiter_init b =
     \<lparr>base_delay = b, last_request = 0, consecutive_failures = 0, total_requests = 0\<rparr>"

text \<open>
  The local variable \<^verbatim>\<open>required_delay\<close> of \<^verbatim>\<open>wait_if_needed\<close>: the base delay, and when
  there has been a failure the float product \<^verbatim>\<open>required_delay * (3 ** n)\<close>. The power
  is an exact integer; the product converts it to a float first, which raises
  \<^verbatim>\<open>OverflowError\<close> when it is too large, and then multiplies two floats.
\<close>

definition required_delay :: "RateLimiter \<Rightarrow> py_error + pyfloat" where
  "required_delay rl =
     (if consecutive_failures rl > 0
      then (case float_of_int (3 ^ consecutive_failures rl) of
              Inl exn \<Rightarrow> Inl exn
            | Inr factor \<Rightarrow> Inr (float_mul (base_delay rl) factor))
      else Inr (base_delay rl))"

text \<open>
  \<^verbatim>\<open>time.sleep\<close> belongs to the platform and is a parameter: \<open>sleep now t\<close> is
  \<open>None\<close> when a sleep of \<open>t\<close> seconds begun at clock reading \<open>now\<close> returns, and the
  exception when it raises (a time that is negative or too large for the platform).
  \<close>

type_synonym sleep_fn = "real \<Rightarrow> real \<Rightarrow> py_error option"

text \<open>
  The time that \<^verbatim>\<open>wait_if_needed\<close> sleeps: the part of the required delay that has
  not yet elapsed, nothing when the comparison \<^verbatim>\<open>time_since_last < required_delay\<close> is
  false, as it is for a NaN. For an infinite required delay the time to sleep is
  infinite, and \<^verbatim>\<open>time.sleep\<close> raises \<^verbatim>\<open>OverflowError\<close> when it converts its argument.
\<close>

definition wait_time :: "sleep_fn \<Rightarrow> real \<Rightarrow> real \<Rightarrow> pyfloat \<Rightarrow> py_error + real" where
  "wait_time sleep now time_since_last required =
     (case required of
        Finite d \<Rightarrow>
          if time_since_last < d
          then (case sleep now (d - time_since_last) of
                  None \<Rightarrow> Inr (d - time_since_last)
                | Some exn \<Rightarrow> Inl exn)
          else Inr 0
      | PosInf \<Rightarrow> Inl OverflowError
      | NegInf \<Rightarrow> Inr 0
      | NaN \<Rightarrow> Inr 0)"

text \<open>
  \<^verbatim>\<open>wait_if_needed\<close> reads the clock, computes the required delay, sleeps, reads the
  clock again and counts the request. The clock is the second argument; it advances by
  exactly the time slept, and the reading after the sleep is returned with the
  updated limiter. An exception leaves the limiter as it was.
\<close>

definition wait_if_needed ::
  "sleep_fn \<Rightarrow> real \<Rightarrow> RateLimiter \<Rightarrow> py_error + real \<times> RateLimiter" where
  "wait_if_needed sleep now rl =
     (case required_delay rl of
        Inl exn \<Rightarrow> Inl exn
      | Inr required \<Rightarrow>
          (case wait_time sleep now (now - last_request rl) required of
             Inl exn \<Rightarrow> Inl exn
           | Inr t \<Rightarrow>
               Inr (now + t,
                    rl\<lparr>last_request := now + t, total_requests := total_requests rl + 1\<rparr>)))"

definition record_success :: "RateLimiter \<Rightarrow> RateLimiter" where
  "record_success rl = rl\<lparr>consecutive_failures := 0\<rparr>"

definition record_failure :: "RateLimiter \<Rightarrow> RateLimiter" where
  "record_failure rl = rl\<lparr>consecutive_failures := consecutive_failures rl + 1\<rparr>"

section \<open>Python values\<close>

text \<open>
  The values that \<^verbatim>\<open>json.loads\<close> returns and \<^verbatim>\<open>json.dumps\<close> accepts: \<^verbatim>\<open>None\<close>,
  booleans, integers, floats, strings, lists, and dicts with string keys. A dict is an association list in insertion order; its keys are taken to
  be distinct, and a lookup is \<open>map_of\<close>.
\<close>

datatype json =
    JNull
  | JBool bool
  | JInt int
  | JFloat pyfloat
  | JStr string
  | JArr "json list"
  | JObj "(string \<times> json) list"

text \<open>
  \<^verbatim>\<open>x.get(k, dflt)\<close>: only a dict has the method; every other value raises
  \<^verbatim>\<open>AttributeError\<close>. A key that is present with value \<^verbatim>\<open>None\<close> yields \<^verbatim>\<open>None\<close>, not
  the default.
\<close>

definition py_get :: "json \<Rightarrow> string \<Rightarrow> json \<Rightarrow> py_error + json" where
  "py_get x k dflt =
     (case x of
        JObj kvs \<Rightarrow> (case map_of kvs k of None \<Rightarrow> Inr dflt | Some v \<Rightarrow> Inr v)
      | _ \<Rightarrow> Inl AttributeError)"

text \<open>\<^verbatim>\<open>len(x)\<close>: defined on strings, lists and dicts, \<^verbatim>\<open>TypeError\<close> otherwise.\<close>

definition py_len :: "json \<Rightarrow> py_error + nat" where
  "py_len x =
     (case x of
        JStr s \<Rightarrow> Inr (length s)
      | JArr xs \<Rightarrow> Inr (length xs)
      | JObj kvs \<Rightarrow> Inr (length kvs)
      | _ \<Rightarrow> Inl TypeError)"

text \<open>
  \<^verbatim>\<open>for element in x\<close>: a list yields its items, a string its characters, a dict its
  keys; anything else is not iterable.
\<close>

definition py_iter :: "json \<Rightarrow> py_error + json list" where
  "py_iter x =
     (case x of
        JArr xs \<Rightarrow> Inr xs
      | JStr s \<Rightarrow> Inr (map (\<lambda>c. JStr [c]) s)
      | JObj kvs \<Rightarrow> Inr (map (\<lambda>kv. JStr (fst kv)) kvs)
      | _ \<Rightarrow> Inl TypeError)"

text \<open>Truth value of a Python value, as \<^verbatim>\<open>or\<close> tests it.\<close>

definition truthy :: "json \<Rightarrow> bool" where
  "truthy x =
     (case x of
        JNull \<Rightarrow> False
      | JBool b \<Rightarrow> b
      | JInt n \<Rightarrow> n \<noteq> 0
      | JFloat f \<Rightarrow> f \<noteq> Finite 0
      | JStr s \<Rightarrow> s \<noteq> []
      | JArr xs \<Rightarrow> xs \<noteq> []
      | JObj kvs \<Rightarrow> kvs \<noteq> [])"

definition py_or :: "json \<Rightarrow> json \<Rightarrow> json" where
  "py_or a b = (if truthy a then a else b)"

text \<open>
  \<^verbatim>\<open>float(x)\<close>: a float is returned as it is, an integer is converted and raises
  \<^verbatim>\<open>OverflowError\<close> when it is too large, a boolean converts as the integer it is, a
  string is parsed (the parser is the parameter \<open>float_of_str\<close>, \<open>None\<close> where it raises
  \<^verbatim>\<open>ValueError\<close>), and \<^verbatim>\<open>None\<close>, lists and dicts raise \<^verbatim>\<open>TypeError\<close>.
\<close>

definition py_float :: "(string \<Rightarrow> pyfloat option) \<Rightarrow> json \<Rightarrow> py_error + pyfloat" where
  "py_float float_of_str x =
     (case x of
        JInt n \<Rightarrow> float_of_int n
      | JFloat f \<Rightarrow> Inr f
      | JBool b \<Rightarrow> Inr (Finite (if b then 1 else 0))
      | JStr s \<Rightarrow> (case float_of_str s of None \<Rightarrow> Inl ValueError | Some f \<Rightarrow> Inr f)
      | _ \<Rightarrow> Inl TypeError)"

text \<open>\<^verbatim>\<open>str(n)\<close> for an integer, as an f-string formats it.\<close>

fun str_nat :: "nat \<Rightarrow> string" where
  "str_nat n =
     (if n < 10 then [''0123456789'' ! n]
      else str_nat (n div 10) @ [''0123456789'' ! (n mod 10)])"

declare str_nat.simps [simp del]

definition str_int :: "int \<Rightarrow> string" where
  "str_int i = (if i < 0 then ''-'' @ str_nat (nat (- i)) else str_nat (nat i))"

section \<open>The asset cache (cached\_downloads.py)\<close>

definition CACHE_EXPIRY :: "(string \<times> int) list" where
  "CACHE_EXPIRY =
     [(''airports'', 7), (''harbours'', 14), (''military'', 30),
      (''energy'', 3), (''rail'', 14), (''border'', 30)]"

text \<open>\<^verbatim>\<open>CACHE_EXPIRY.get(asset_type, 7)\<close>, in days.\<close>

definition expiry_days :: "string \<Rightarrow> int" where
  "expiry_days asset_type =
     (case map_of CACHE_EXPIRY asset_type of None \<Rightarrow> 7 | Some d \<Rightarrow> d)"

text \<open>
  A \<^verbatim>\<open>datetime\<close> has microsecond resolution: a point in time is an integer number of
  microseconds, and so is a \<^verbatim>\<open>timedelta\<close>. \<^verbatim>\<open>isoformat\<close> followed by \<^verbatim>\<open>fromisoformat\<close>
  gives the same \<^verbatim>\<open>datetime\<close> back, so the index entry holds the time itself.
\<close>

definition timedelta_days :: "int \<Rightarrow> int" where
  "timedelta_days d = d * 86400000000"

text \<open>
  The dict that \<^verbatim>\<open>cache_data\<close> stores in the index for a key. Every entry of an index
  is taken to have these six keys, as the entries have that \<^verbatim>\<open>cache_data\<close> writes.
\<close>

record cache_info =
  info_asset_type :: string
  info_query_hash :: string
  info_filename :: string
  info_timestamp :: int
  info_size :: nat
  info_file_size :: nat

text \<open>
  The file \<^verbatim>\<open>cache_index.json\<close>: absent, unreadable as JSON, or holding an index. It
  is recorded by the index that was written to it rather than by its text.
\<close>

datatype index_file = Absent | Unreadable | Stored "string \<rightharpoonup> cache_info"

text \<open>
  An \<^verbatim>\<open>AssetCache\<close> object with the directory it works on: the index in memory, the
  data files of \<^verbatim>\<open>CACHE_DIR\<close> by name, and the index file.
\<close>

record AssetCache =
  cache_index :: "string \<rightharpoonup> cache_info"
  cache_dir :: "string \<rightharpoonup> string"
  cache_index_path :: index_file

definition load_cache_index :: "index_file \<Rightarrow> (string \<rightharpoonup> cache_info)" where
  "load_cache_index f = (case f of Stored idx \<Rightarrow> idx | _ \<Rightarrow> Map.empty)"

definition AssetCache_init :: "(string \<rightharpoonup> string) \<Rightarrow> index_file \<Rightarrow> AssetCache" where
  "AssetCache_init dir f =
     \<lparr>cache_index = load_cache_index f, cache_dir = dir, cache_index_path = f\<rparr>"

definition save_cache_index :: "AssetCache \<Rightarrow> AssetCache" where
  "save_cache_index c = c\<lparr>cache_index_path := Stored (cache_index c)\<rparr>"

definition get_cache_key :: "string \<Rightarrow> string \<Rightarrow> string" where
  "get_cache_key asset_type qh = asset_type @ ''_'' @ qh"

text \<open>
  \<^verbatim>\<open>hashlib.md5(query.encode()).hexdigest()[:12]\<close>. The digest is a library function
  and is the parameter \<open>md5_hexdigest\<close>; the code keeps its first twelve characters.
\<close>

definition query_hash :: "(string \<Rightarrow> string) \<Rightarrow> string \<Rightarrow> string" where
  "query_hash md5_hexdigest query = take 12 (md5_hexdigest query)"

text \<open>The first argument is the reading of \<^verbatim>\<open>datetime.now()\<close>.\<close>

definition is_cache_valid :: "int \<Rightarrow> AssetCache \<Rightarrow> string \<Rightarrow> string \<Rightarrow> bool" where
  "is_cache_valid now c asset_type qh =
     (case cache_index c (get_cache_key asset_type qh) of
        None \<Rightarrow> False
      | Some cache_info \<Rightarrow>
          now - info_timestamp cache_info < timedelta_days (expiry_days asset_type))"

text \<open>
  \<^verbatim>\<open>get_cached_data\<close> returns \<^verbatim>\<open>None\<close> (here \<open>JNull\<close>) for a miss. \<^verbatim>\<open>json.loads\<close> is
  the parameter \<open>json_loads\<close>, \<open>None\<close> where it raises; the exception is caught and
  the function falls through to \<^verbatim>\<open>return None\<close>. The index lookup after the validity
  check would raise \<^verbatim>\<open>KeyError\<close> on a missing key.
\<close>

definition get_cached_data ::
  "(string \<Rightarrow> json option) \<Rightarrow> int \<Rightarrow> AssetCache \<Rightarrow> string \<Rightarrow> string \<Rightarrow> py_error + json" where
  "get_cached_data json_loads now c asset_type qh =
     (if \<not> is_cache_valid now c asset_type qh then Inr JNull
      else case cache_index c (get_cache_key asset_type qh) of
        None \<Rightarrow> Inl KeyError
      | Some cache_info \<Rightarrow>
          (case cache_dir c (info_filename cache_info) of
             None \<Rightarrow> Inr JNull
           | Some text \<Rightarrow>
               (case json_loads text of None \<Rightarrow> Inr JNull | Some v \<Rightarrow> Inr v)))"

text \<open>
  \<^verbatim>\<open>cache_data\<close> writes the data file first and the index entry second. \<open>time_time\<close>
  is \<^verbatim>\<open>int(time.time())\<close>, \<open>now\<close> is \<^verbatim>\<open>datetime.now()\<close>, and \<^verbatim>\<open>json.dumps\<close> is the
  parameter \<open>json_dumps\<close>. Building the index entry evaluates
  \<^verbatim>\<open>len(data.get("elements", []))\<close>, which raises when \<open>data\<close> is not a dict or the
  entry has no length; the data file has been written by then, the index has not been
  touched. The result is the exception, if any, and the cache afterwards.
\<close>

definition cache_data ::
  "(json \<Rightarrow> string) \<Rightarrow> int \<Rightarrow> int \<Rightarrow> AssetCache \<Rightarrow> string \<Rightarrow> string \<Rightarrow> json
     \<Rightarrow> py_error option \<times> AssetCache" where
  "cache_data json_dumps time_time now c asset_type qh data =
     (let cache_key = get_cache_key asset_type qh;
          filename = cache_key @ ''_'' @ str_int time_time @ ''.json'';
          text = json_dumps data;
          c1 = c\<lparr>cache_dir := (cache_dir c)(filename \<mapsto> text)\<rparr>
      in case py_get data ''elements'' (JArr []) of
           Inl e \<Rightarrow> (Some e, c1)
         | Inr elements \<Rightarrow>
             (case py_len elements of
                Inl e \<Rightarrow> (Some e, c1)
              | Inr n \<Rightarrow>
                  (None,
                   save_cache_index
                     (c1\<lparr>cache_index := (cache_index c1)(cache_key \<mapsto>
                        \<lparr>info_asset_type = asset_type, info_query_hash = qh,
                         info_filename = filename, info_timestamp = now,
                         info_size = n, info_file_size = length text\<rparr>)\<rparr>))))"

section \<open>Queries with retry, and the chunked download (optimized\_downloads.py)\<close>

text \<open>
  A file of \<^verbatim>\<open>ASSET_DIR\<close> carries its modification time and is recorded by the value
  whose \<^verbatim>\<open>json.dumps\<close> text was written to it. The world of a download
  is the clock (\<^verbatim>\<open>time.time()\<close>, in seconds), the queries sent so far, one entry per
  call of \<^verbatim>\<open>urlopen\<close> in the order of the calls, and the asset files.
\<close>

record asset_file =
  st_mtime :: real
  written :: json

record world =
  clock :: real
  requests :: "string list"
  asset_dir :: "string \<rightharpoonup> asset_file"

text \<open>
  What the code calls and does not define. \<open>urlopen k q\<close> is the outcome of the call
  of \<^verbatim>\<open>urlopen\<close> made for query \<open>q\<close> after \<open>k\<close> earlier calls, together with reading,
  decoding and \<^verbatim>\<open>json.loads\<close>: the parsed response, or the exception raised by one of
  these steps (the choice of endpoint is part of this outcome). \<open>time_sleep\<close> is
  \<^verbatim>\<open>time.sleep\<close> as the rate limiter calls it. The five downloads
  that are called by the download manager and that no property below is about are
  taken as they come: each changes the world and may raise.
\<close>

record env =
  float_of_str :: "string \<Rightarrow> pyfloat option"
  strftime_gmtime :: "real \<Rightarrow> string"
  urlopen :: "nat \<Rightarrow> string \<Rightarrow> py_error + json"
  time_sleep :: sleep_fn
  download_energy_chunked :: "world \<Rightarrow> py_error option \<times> world"
  download_critical_infrastructure :: "world \<Rightarrow> py_error option \<times> world"
  download_from_github_datasets :: "world \<Rightarrow> py_error option \<times> world"
  download_from_wikidata :: "world \<Rightarrow> py_error option \<times> world"
  create_fallback_dataset :: "world \<Rightarrow> py_error option \<times> world"

definition EU_REGIONS :: "(string \<times> int \<times> int \<times> int \<times> int) list" where
  "EU_REGIONS =
     [(''nordic'', 55, 4, 72, 32),
      (''western'', 42, - 10, 55, 8),
      (''central'', 45, 8, 55, 20),
      (''southern'', 35, 8, 45, 20),
      (''eastern'', 45, 20, 55, 40)]"

definition empty_result :: json where
  "empty_result = JObj [(''elements'', JArr [])]"

text \<open>
  The loop of \<^verbatim>\<open>execute_query_with_retry\<close> over the attempt numbers that are left.
  The body of an attempt is inside \<^verbatim>\<open>try\<close>: a response that parses is returned, and
  an exception is caught; after the last attempt (\<^verbatim>\<open>attempt == max_retries - 1\<close>) the
  handler returns \<^verbatim>\<open>{"elements": []}\<close>, and so does the line after the loop.
  Sleeping and printing change neither the result nor the files, and are left out.
\<close>

fun attempts :: "env \<Rightarrow> string \<Rightarrow> int \<Rightarrow> nat list \<Rightarrow> world \<Rightarrow> json \<times> world" where
  "attempts e query max_retries [] w = (empty_result, w)"
| "attempts e query max_retries (attempt # rest) w =
     (let w1 = w\<lparr>requests := requests w @ [query]\<rparr>
      in case urlopen e (length (requests w)) query of
           Inr response \<Rightarrow> (response, w1)
         | Inl exn \<Rightarrow>
             if int attempt = max_retries - 1 then (empty_result, w1)
             else attempts e query max_retries rest w1)"

declare attempts.simps(2) [simp del]

definition execute_query_with_retry :: "env \<Rightarrow> string \<Rightarrow> int \<Rightarrow> world \<Rightarrow> json \<times> world" where
  "execute_query_with_retry e query max_retries w =
     attempts e query max_retries [0..<nat max_retries] w"

text \<open>The query text of \<^verbatim>\<open>download_military_chunked\<close> for one bounding box.\<close>

definition military_query :: "int \<times> int \<times> int \<times> int \<Rightarrow> string" where
  \<open>military_query bbox =
     (case bbox of (south, west, north, east) \<Rightarrow>
        let box = ''('' @ str_int south @ '','' @ str_int west @ '','' @ str_int north
                    @ '','' @ str_int east @ '');\<newline>''
        in ''\<newline>        [out:json][timeout:60];\<newline>        (\<newline>''
           @ ''          node["landuse"="military"]'' @ box
           @ ''          way["landuse"="military"]'' @ box
           @ ''          node["military"]'' @ box
           @ ''          way["military"]'' @ box
           @ ''          node["aeroway"="aerodrome"]["military"="yes"]'' @ box
           @ ''          way["aeroway"="aerodrome"]["military"="yes"]'' @ box
           @ ''        );\<newline>        out center tags;\<newline>        '')\<close>

text \<open>
  One round of the loop of \<^verbatim>\<open>process_military_elements\<close>: \<open>Inr None\<close> is
  \<^verbatim>\<open>continue\<close> (a coordinate is \<^verbatim>\<open>None\<close>), \<open>Inr (Some f)\<close> is the feature appended, and
  \<open>Inl\<close> is an exception, which nothing in this function catches. The steps are in
  the order in which Python evaluates them.
\<close>

definition and_then :: "'e + 'a \<Rightarrow> ('a \<Rightarrow> 'e + 'b) \<Rightarrow> 'e + 'b" where
  "and_then r f = (case r of Inl e \<Rightarrow> Inl e | Inr x \<Rightarrow> f x)"

definition process_military_element ::
  "(string \<Rightarrow> pyfloat option) \<Rightarrow> json \<Rightarrow> py_error + json option" where
  "process_military_element fos element =
     and_then (py_get element ''center'' (JObj [])) (\<lambda>center.
     and_then (py_get center ''lat'' JNull) (\<lambda>center_lat.
     and_then (py_get element ''lat'' center_lat) (\<lambda>lat.
     and_then (py_get center ''lon'' JNull) (\<lambda>center_lon.
     and_then (py_get element ''lon'' center_lon) (\<lambda>lon.
     if lat = JNull \<or> lon = JNull then Inr None
     else
     and_then (py_get element ''tags'' (JObj [])) (\<lambda>tags.
     and_then (py_get tags ''name'' JNull) (\<lambda>tag_name.
     and_then (py_get tags ''military'' JNull) (\<lambda>tag_military.
     and_then (py_get tags ''ref'' JNull) (\<lambda>tag_ref.
     let name = py_or (py_or (py_or tag_name tag_military) tag_ref)
                  (JStr ''Military facility'')
     in
     and_then (py_get tags ''military'' (JStr ''base'')) (\<lambda>facility_type.
     and_then (py_float fos lon) (\<lambda>flon.
     and_then (py_float fos lat) (\<lambda>flat.
     and_then (py_get element ''id'' JNull) (\<lambda>osm_id.
     Inr (Some (JObj
       [(''type'', JStr ''Feature''),
        (''geometry'',
           JObj [(''type'', JStr ''Point''),
                 (''coordinates'', JArr [JFloat flon, JFloat flat])]),
        (''properties'',
           JObj [(''osm_id'', osm_id),
                 (''name'', name),
                 (''facility_type'', facility_type),
                 (''asset_type'', JStr ''military''),
                 (''tags'',
                    JObj (filter (\<lambda>kv. fst kv \<notin> {''name'', ''military''})
                            (case tags of JObj kvs \<Rightarrow> kvs | _ \<Rightarrow> [])))])])))))))))))))))"

fun process_military_loop ::
  "(string \<Rightarrow> pyfloat option) \<Rightarrow> json list \<Rightarrow> json list \<Rightarrow> py_error + json list" where
  "process_military_loop fos [] features = Inr features"
| "process_military_loop fos (element # rest) features =
     (case process_military_element fos element of
        Inl exn \<Rightarrow> Inl exn
      | Inr None \<Rightarrow> process_military_loop fos rest features
      | Inr (Some feature) \<Rightarrow> process_military_loop fos rest (features @ [feature]))"

definition process_military_elements ::
  "(string \<Rightarrow> pyfloat option) \<Rightarrow> json \<Rightarrow> py_error + json list" where
  "process_military_elements fos elements =
     and_then (py_iter elements) (\<lambda>items. process_military_loop fos items [])"

text \<open>\<^verbatim>\<open>save_geojson\<close> writes the feature collection with its metadata.\<close>

definition save_geojson :: "env \<Rightarrow> json list \<Rightarrow> string \<Rightarrow> string \<Rightarrow> world \<Rightarrow> world" where
  "save_geojson e features path asset_type w =
     (let geojson = JObj
            [(''type'', JStr ''FeatureCollection''),
             (''features'', JArr features),
             (''metadata'',
                JObj [(''generated'', JStr (strftime_gmtime e (clock w))),
                      (''asset_type'', JStr asset_type),
                      (''count'', JInt (int (length features)))])]
      in w\<lparr>asset_dir := (asset_dir w)(path \<mapsto>
             \<lparr>st_mtime = clock w, written = geojson\<rparr>)\<rparr>)"

text \<open>
  The features of one region:
  \<^verbatim>\<open>process_military_elements(osm_data.get("elements", []))\<close>.
\<close>

definition features_of_response :: "(string \<Rightarrow> pyfloat option) \<Rightarrow> json \<Rightarrow> py_error + json list" where
  "features_of_response fos osm_data =
     and_then (py_get osm_data ''elements'' (JArr [])) (process_military_elements fos)"

text \<open>
  The loop of \<^verbatim>\<open>download_military_chunked\<close> over the regions that are left, with the
  features collected so far. An exception raised while the elements of a region are
  processed leaves the loop and the function.
\<close>

fun military_regions ::
  "env \<Rightarrow> (string \<times> int \<times> int \<times> int \<times> int) list \<Rightarrow> json list \<Rightarrow> world
     \<Rightarrow> (py_error + json list) \<times> world" where
  "military_regions e [] all_features w = (Inr all_features, w)"
| "military_regions e ((region_name, bbox) # rest) all_features w =
     (case execute_query_with_retry e (military_query bbox) 3 w of
        (osm_data, w1) \<Rightarrow>
          (case features_of_response (float_of_str e) osm_data of
             Inl exn \<Rightarrow> (Inl exn, w1)
           | Inr region_features \<Rightarrow>
               military_regions e rest (all_features @ region_features) w1))"

definition download_military_chunked :: "env \<Rightarrow> world \<Rightarrow> py_error option \<times> world" where
  "download_military_chunked e w =
     (case military_regions e EU_REGIONS [] w of
        (Inl exn, w1) \<Rightarrow> (Some exn, w1)
      | (Inr all_features, w1) \<Rightarrow>
          (None, save_geojson e all_features ''military.geojson'' ''military'' w1))"

section \<open>The download manager (download\_manager.py)\<close>

record DownloadConfig =
  cfg_max_retries :: int
  cfg_base_delay :: pyfloat
  cfg_timeout :: int
  cfg_chunk_size :: int
  enable_cache :: bool
  enable_fallback :: bool
  rate_limit_delay :: real

definition DownloadConfig_default :: DownloadConfig where
  "DownloadConfig_default =
     \<lparr>cfg_max_retries = 3, cfg_base_delay = Finite 30, cfg_timeout = 90, cfg_chunk_size = 2,
      enable_cache = True, enable_fallback = True, rate_limit_delay = 45\<rparr>"

text \<open>An entry of \<^verbatim>\<open>download_stats["operations"]\<close>.\<close>

record operation =
  op_asset_type :: string
  op_strategy :: string
  op_duration :: real
  op_timestamp :: real
  op_success :: bool

text \<open>
  A \<^verbatim>\<open>DownloadManager\<close>: its configuration, its limiter, and the four entries of
  \<^verbatim>\<open>download_stats\<close> that the constructor sets.
\<close>

record DownloadManager =
  config :: DownloadConfig
  rate_limiter :: RateLimiter
  started :: real
  operations :: "operation list"
  total_features :: nat
  total_time :: real

definition DownloadManager_init :: "DownloadConfig \<Rightarrow> real \<Rightarrow> DownloadManager" where
  "DownloadManager_init cfg now =
     \<lparr>config = cfg, rate_limiter = RateLimiter_init (cfg_base_delay cfg),
      started = now, operations = [], total_features = 0, total_time = 0\<rparr>"

text \<open>
  A strategy gets the asset type and the world; it returns a truth value or raises,
  and leaves a world behind in both cases.
\<close>

type_synonym strategy = "string \<Rightarrow> world \<Rightarrow> (py_error + bool) \<times> world"

text \<open>
  \<^verbatim>\<open>_try_cached_download\<close> looks for the file \<^verbatim>\<open><asset_type>_cached.geojson\<close> among the
  assets and accepts it when it is less than 24 hours old. The \<^verbatim>\<open>AssetCache\<close> object
  it creates is not used.
\<close>

definition try_cached_download :: "DownloadConfig \<Rightarrow> strategy" where
  "try_cached_download cfg asset_type w =
     (if \<not> enable_cache cfg then (Inr False, w)
      else case asset_dir w (asset_type @ ''_cached.geojson'') of
        None \<Rightarrow> (Inr False, w)
      | Some cache_file \<Rightarrow>
          (let cache_age = clock w - st_mtime cache_file;
               max_age = 24 * 3600
           in if cache_age < max_age then (Inr True, w) else (Inr False, w)))"

text \<open>Calling a download and returning \<^verbatim>\<open>True\<close> after it, unless it raised.\<close>

definition returning_True :: "py_error option \<times> world \<Rightarrow> (py_error + bool) \<times> world" where
  "returning_True r = (case r of (None, w) \<Rightarrow> (Inr True, w) | (Some exn, w) \<Rightarrow> (Inl exn, w))"

definition try_optimized_download :: "env \<Rightarrow> strategy" where
  "try_optimized_download e asset_type w =
     (if asset_type = ''military'' then returning_True (download_military_chunked e w)
      else if asset_type = ''energy'' then returning_True (download_energy_chunked e w)
      else if asset_type = ''critical'' then
        returning_True (download_critical_infrastructure e w)
      else (Inr False, w))"

definition try_alternative_sources :: "env \<Rightarrow> DownloadConfig \<Rightarrow> strategy" where
  "try_alternative_sources e cfg asset_type w =
     (if \<not> enable_fallback cfg then (Inr False, w)
      else if asset_type = ''airports'' then
        returning_True (download_from_github_datasets e w)
      else if asset_type = ''infrastructure'' then
        returning_True (download_from_wikidata e w)
      else (Inr False, w))"

definition try_fallback_data :: "env \<Rightarrow> strategy" where
  "try_fallback_data e asset_type w = returning_True (create_fallback_dataset e w)"

definition strategies :: "env \<Rightarrow> DownloadConfig \<Rightarrow> (string \<times> strategy) list" where
  "strategies e cfg =
     [(''_try_cached_download'', try_cached_download cfg),
      (''_try_optimized_download'', try_optimized_download e),
      (''_try_alternative_sources'', try_alternative_sources e cfg),
      (''_try_fallback_data'', try_fallback_data e)]"

text \<open>
  The loop of \<^verbatim>\<open>download_with_fallback\<close> over the strategies that are left, each with
  its \<^verbatim>\<open>__name__\<close>. The wait and the strategy are inside \<^verbatim>\<open>try\<close>. A strategy that
  returns a true value ends the loop with a success record. One that returns a false
  value is followed by the next strategy and nothing else happens. An exception, of
  the wait or of the strategy, is handled by \<^verbatim>\<open>record_failure\<close> on the limiter and
  \<^verbatim>\<open>continue\<close>. When the list is exhausted the \<^verbatim>\<open>all_failed\<close> record is appended.
  Logging is left out: it does not touch \<^verbatim>\<open>download_stats\<close>.
\<close>

fun run_strategies ::
  "env \<Rightarrow> (string \<times> strategy) list \<Rightarrow> string \<Rightarrow> real \<Rightarrow> DownloadManager \<Rightarrow> world
     \<Rightarrow> bool \<times> DownloadManager \<times> world" where
  "run_strategies e [] asset_type start_time m w =
     (False,
      m\<lparr>operations := operations m @
          [\<lparr>op_asset_type = asset_type, op_strategy = ''all_failed'',
            op_duration = clock w - start_time, op_timestamp = clock w,
            op_success = False\<rparr>]\<rparr>,
      w)"
| "run_strategies e ((name, strategy) # rest) asset_type start_time m w =
     (case wait_if_needed (time_sleep e) (clock w) (rate_limiter m) of
        Inl exn \<Rightarrow>
          run_strategies e rest asset_type start_time
            (m\<lparr>rate_limiter := record_failure (rate_limiter m)\<rparr>) w
      | Inr (now, rl) \<Rightarrow>
          (case strategy asset_type (w\<lparr>clock := now\<rparr>) of
             (Inr True, w1) \<Rightarrow>
               (True,
                m\<lparr>rate_limiter := record_success rl,
                  operations := operations m @
                    [\<lparr>op_asset_type = asset_type, op_strategy = name,
                      op_duration = clock w1 - start_time, op_timestamp = clock w1,
                      op_success = True\<rparr>]\<rparr>,
                w1)
           | (Inr False, w1) \<Rightarrow>
               run_strategies e rest asset_type start_time (m\<lparr>rate_limiter := rl\<rparr>) w1
           | (Inl exn, w1) \<Rightarrow>
               run_strategies e rest asset_type start_time
                 (m\<lparr>rate_limiter := record_failure rl\<rparr>) w1))"

definition download_with_fallback ::
  "env \<Rightarrow> string \<Rightarrow> DownloadManager \<Rightarrow> world \<Rightarrow> bool \<times> DownloadManager \<times> world" where
  "download_with_fallback e asset_type m w =
     run_strategies e (strategies e (config m)) asset_type (clock w) m w"

section \<open>Notions used to state the properties\<close>

text \<open>
  The responses that \<^verbatim>\<open>execute_query_with_retry\<close> returns for the given regions when
  they are queried one after the other, starting in world \<open>w\<close>.
\<close>

fun region_responses ::
  "env \<Rightarrow> (string \<times> int \<times> int \<times> int \<times> int) list \<Rightarrow> world \<Rightarrow> json list" where
  "region_responses e [] w = []"
| "region_responses e ((region_name, bbox) # rest) w =
     (case execute_query_with_retry e (military_query bbox) 3 w of
        (osm_data, w1) \<Rightarrow> osm_data # region_responses e rest w1)"

text \<open>The number of calls of \<^verbatim>\<open>urlopen\<close> made for each of these regions.\<close>

fun region_attempts ::
  "env \<Rightarrow> (string \<times> int \<times> int \<times> int \<times> int) list \<Rightarrow> world \<Rightarrow> nat list" where
  "region_attempts e [] w = []"
| "region_attempts e ((region_name, bbox) # rest) w =
     (case execute_query_with_retry e (military_query bbox) 3 w of
        (osm_data, w1) \<Rightarrow>
          (length (requests w1) - length (requests w)) # region_attempts e rest w1)"

text \<open>The features of a response, none if processing it raises.\<close>

definition feature_list :: "(string \<Rightarrow> pyfloat option) \<Rightarrow> json \<Rightarrow> json list" where
  "feature_list fos osm_data =
     (case features_of_response fos osm_data of Inr features \<Rightarrow> features | Inl exn \<Rightarrow> [])"

text \<open>The queries sent for the given regions when region \<open>i\<close> takes \<open>ks ! i\<close> attempts.\<close>

fun region_requests ::
  "(string \<times> int \<times> int \<times> int \<times> int) list \<Rightarrow> nat list \<Rightarrow> string list" where
  "region_requests ((region_name, bbox) # rest) (k # ks) =
     replicate k (military_query bbox) @ region_requests rest ks"
| "region_requests regions ks = []"

text \<open>The \<^verbatim>\<open>asset_type\<close> property of a feature.\<close>

definition feature_asset_type :: "json \<Rightarrow> json" where
  "feature_asset_type feature =
     (case py_get feature ''properties'' JNull of
        Inr properties \<Rightarrow>
          (case py_get properties ''asset_type'' JNull of Inr v \<Rightarrow> v | Inl exn \<Rightarrow> JNull)
      | Inl exn \<Rightarrow> JNull)"

text \<open>What the loop of \<^verbatim>\<open>download_with_fallback\<close> does to the limiter after a strategy
  that did not return a true value: \<^verbatim>\<open>record_failure\<close> if it raised, nothing if it
  returned a false value.\<close>

definition after_failed :: "py_error + bool \<Rightarrow> RateLimiter \<Rightarrow> RateLimiter" where
  "after_failed r rl = (case r of Inl exn \<Rightarrow> record_failure rl | Inr b \<Rightarrow> rl)"

text \<open>
  One round of the loop of \<^verbatim>\<open>download_with_fallback\<close> up to the answer of the strategy:
  the wait, then the strategy on the world after the wait. The result is the answer,
  the limiter after the wait and the world after the strategy. When the wait raises,
  the answer is its exception, and the limiter and the world are as before.
\<close>

definition try_strategy ::
  "env \<Rightarrow> strategy \<Rightarrow> string \<Rightarrow> RateLimiter \<Rightarrow> world
     \<Rightarrow> (py_error + bool) \<times> RateLimiter \<times> world" where
  "try_strategy e s asset_type rl w =
     (case wait_if_needed (time_sleep e) (clock w) rl of
        Inl exn \<Rightarrow> (Inl exn, rl, w)
      | Inr (now, rl1) \<Rightarrow>
          (case s asset_type (w\<lparr>clock := now\<rparr>) of (r, w1) \<Rightarrow> (r, rl1, w1)))"

text \<open>
  A run of strategies that all fail: each is tried in turn, on the limiter and the
  world that the one before left behind. The result is the list of their answers with
  the limiter and the world after the last of them, or \<open>None\<close> when one of them
  returns a true value.
\<close>

fun failing_prefix ::
  "env \<Rightarrow> (string \<times> strategy) list \<Rightarrow> string \<Rightarrow> RateLimiter \<Rightarrow> world
     \<Rightarrow> ((py_error + bool) list \<times> RateLimiter \<times> world) option" where
  "failing_prefix e [] asset_type rl w = Some ([], rl, w)"
| "failing_prefix e ((name, s) # rest) asset_type rl w =
     (case try_strategy e s asset_type rl w of
        (r, rl1, w1) \<Rightarrow>
          if r = Inr True then None
          else (case failing_prefix e rest asset_type (after_failed r rl1) w1 of
                  None \<Rightarrow> None
                | Some (rs, rl2, w2) \<Rightarrow> Some (r # rs, rl2, w2)))"

text \<open>The features of the collection saved under a name, none if there is no such file.\<close>

definition saved_features :: "world \<Rightarrow> string \<Rightarrow> json list" where
  "saved_features w path =
     (case asset_dir w path of
        None \<Rightarrow> []
      | Some f \<Rightarrow>
          (case py_get (written f) ''features'' JNull of
             Inr (JArr features) \<Rightarrow> features
           | _ \<Rightarrow> []))"

text \<open>
  An environment for the examples: the network given by \<open>net\<close>, no string parses as a
  float, and the downloads that are parameters do nothing and return.
\<close>

definition example_env :: "(nat \<Rightarrow> string \<Rightarrow> py_error + json) \<Rightarrow> env" where
  "example_env net =
     \<lparr>float_of_str = (\<lambda>s. None),
      strftime_gmtime = (\<lambda>t. ''2025-01-01 00:00:00 UTC''),
      urlopen = net,
      time_sleep = (\<lambda>now t. if t < 0 then Some ValueError
                            else if 2 ^ 63 \<le> t * 10 ^ 9 then Some OverflowError
                            else None),
      download_energy_chunked = (\<lambda>w. (None, w)),
      download_critical_infrastructure = (\<lambda>w. (None, w)),
      download_from_github_datasets = (\<lambda>w. (None, w)),
      download_from_wikidata = (\<lambda>w. (None, w)),
      create_fallback_dataset = (\<lambda>w. (None, w))\<rparr>"

definition example_world :: world where
  "example_world = \<lparr>clock = 1000, requests = [], asset_dir = Map.empty\<rparr>"

text \<open>An OSM node with coordinates, a way with a centre, and an element without
  coordinates.\<close>

definition osm_node :: "int \<Rightarrow> json" where
  "osm_node i =
     JObj [(''type'', JStr ''node''), (''id'', JInt i),
           (''lat'', JFloat (Finite 52.5)), (''lon'', JInt 13),
           (''tags'', JObj [(''military'', JStr ''barracks''), (''name'', JStr ''Kaserne'')])]"

definition osm_way :: "int \<Rightarrow> json" where
  "osm_way i =
     JObj [(''type'', JStr ''way''), (''id'', JInt i),
           (''center'', JObj [(''lat'', JFloat (Finite 48.125)), (''lon'', JFloat (Finite 11.5))]),
           (''tags'', JObj [(''landuse'', JStr ''military'')])]"

definition osm_bare :: "int \<Rightarrow> json" where
  "osm_bare i =
     JObj [(''type'', JStr ''relation''), (''id'', JInt i),
           (''tags'', JObj [(''military'', JStr ''range'')])]"

text \<open>Twelve raw elements, three of them without coordinates.\<close>

definition twelve_elements :: "json list" where
  "twelve_elements =
     [osm_node 1, osm_way 2, osm_bare 3, osm_node 4, osm_node 5, osm_bare 6,
      osm_way 7, osm_way 8, osm_node 9, osm_bare 10, osm_way 11, osm_node 12]"

text \<open>
  A network in which the first query of a download is answered with the twelve
  elements and its other queries with no elements, for two downloads of five queries
  each.
\<close>

definition twelve_net :: "nat \<Rightarrow> string \<Rightarrow> py_error + json" where
  "twelve_net k q =
     (if k = 0 \<or> k = 5 then Inr (JObj [(''elements'', JArr twelve_elements)])
      else Inr empty_result)"



section \<open>Properties of rounding\<close>

lemma round_half_even_bounds: "\<lfloor>t\<rfloor> \<le> round_half_even t \<and> round_half_even t \<le> \<lceil>t\<rceil>"
proof -
  have "\<lfloor>t\<rfloor> + 1 \<le> \<lceil>t\<rceil>" if "t \<noteq> of_int \<lfloor>t\<rfloor>"
    using that by (metis ceiling_altdef order_refl)
  moreover have "t \<noteq> of_int \<lfloor>t\<rfloor>" if "1 / 2 \<le> t - of_int \<lfloor>t\<rfloor>"
    using that by auto
  ultimately show ?thesis
    by (auto simp: round_half_even_def Let_def not_less)
qed

lemma round_half_even_of_int [simp]: "round_half_even (of_int n) = n"
  by (simp add: round_half_even_def)

lemma round_half_even_le_int: "t \<le> of_int n \<Longrightarrow> round_half_even t \<le> n"
  using round_half_even_bounds [of t] by (meson ceiling_le order_trans)

lemma int_le_round_half_even: "of_int n \<le> t \<Longrightarrow> n \<le> round_half_even t"
  using round_half_even_bounds [of t] by (meson le_floor_iff order_trans)




lemma powr_split:
  assumes "k \<le> k'"
  shows "(2::real) powr of_int k' = 2 ^ nat (k' - k) * 2 powr of_int k"
proof -
  have "(2::real) powr of_int (k' - k) = 2 ^ nat (k' - k)"
    using assms powr_real_of_int [of "2::real" "k' - k"] by simp
  moreover have "(2::real) powr of_int k' = 2 powr (of_int (k' - k) + of_int k)"
    by simp
  ultimately show ?thesis
    by (simp only: powr_add)
qed

lemma grid_quotient:
  assumes "k \<le> k'"
  shows "(of_int j * 2 powr of_int k') / 2 powr of_int k = (of_int (j * 2 ^ nat (k' - k)) :: real)"
  by (simp add: powr_split [OF assms])

lemma grid_product:
  assumes "k \<le> k'"
  shows "of_int (j * 2 ^ nat (k' - k)) * 2 powr of_int k = (of_int j * 2 powr of_int k' :: real)"
  by (simp add: powr_split [OF assms])

lemma round_value_le_grid:
  assumes "ulp_exponent x \<le> k'" and "x \<le> of_int j * 2 powr of_int k'"
  shows "round_value x \<le> of_int j * 2 powr of_int k'"
proof -
  let ?p = "(2::real) powr of_int (ulp_exponent x)"
  have p: "0 < ?p" by simp
  have "x / ?p \<le> (of_int j * 2 powr of_int k') / ?p"
    using assms(2) p by (simp add: divide_right_mono)
  then have "x / ?p \<le> of_int (j * 2 ^ nat (k' - ulp_exponent x))"
    by (simp only: grid_quotient [OF assms(1)])
  then have "round_half_even (x / ?p) \<le> j * 2 ^ nat (k' - ulp_exponent x)"
    by (rule round_half_even_le_int)
  then have "of_int (round_half_even (x / ?p)) * ?p
               \<le> of_int (j * 2 ^ nat (k' - ulp_exponent x)) * ?p"
    using p by (simp only: mult_le_cancel_right_pos of_int_le_iff)
  also have "\<dots> = of_int j * 2 powr of_int k'"
    by (rule grid_product [OF assms(1)])
  finally show ?thesis by (simp add: round_value_def)
qed

lemma grid_le_round_value:
  assumes "ulp_exponent x \<le> k'" and "of_int j * 2 powr of_int k' \<le> x"
  shows "of_int j * 2 powr of_int k' \<le> round_value x"
proof -
  let ?p = "(2::real) powr of_int (ulp_exponent x)"
  have p: "0 < ?p" by simp
  have "(of_int j * 2 powr of_int k') / ?p \<le> x / ?p"
    using assms(2) p by (simp add: divide_right_mono)
  then have "of_int (j * 2 ^ nat (k' - ulp_exponent x)) \<le> x / ?p"
    by (simp only: grid_quotient [OF assms(1)])
  then have "j * 2 ^ nat (k' - ulp_exponent x) \<le> round_half_even (x / ?p)"
    by (rule int_le_round_half_even)
  then have "of_int (j * 2 ^ nat (k' - ulp_exponent x)) * ?p
               \<le> of_int (round_half_even (x / ?p)) * ?p"
    using p by (simp only: mult_le_cancel_right_pos of_int_le_iff)
  moreover have "of_int (j * 2 ^ nat (k' - ulp_exponent x)) * ?p = of_int j * 2 powr of_int k'"
    by (rule grid_product [OF assms(1)])
  ultimately show ?thesis by (simp only: round_value_def)
qed





lemma round_value_zero [simp]: "round_value 0 = 0"
  using round_half_even_of_int [of 0] by (simp add: round_value_def)






lemma round_value_of_int:
  assumes "\<bar>n\<bar> < 2 ^ 53"
  shows "round_value (of_int n) = of_int n"
proof (cases "n = 0")
  case True
  then show ?thesis by simp
next
  case False
  let ?x = "of_int n :: real"
  have pos: "0 < \<bar>?x\<bar>" using False by simp
  have "\<bar>?x\<bar> < 2 powr 53"
  proof -
    have "\<bar>?x\<bar> = of_int \<bar>n\<bar>" by simp
    also have "\<dots> < of_int (2 ^ 53)" using assms by (simp only: of_int_less_iff)
    finally show ?thesis by simp
  qed
  then have "log 2 \<bar>?x\<bar> < 53"
    using pos by (simp add: log_less_iff)
  then have "\<lfloor>log 2 \<bar>?x\<bar>\<rfloor> \<le> 52"
    by (simp add: floor_le_iff)
  then have k: "ulp_exponent ?x \<le> 0"
    by (simp add: ulp_exponent_def)
  have "round_value ?x \<le> of_int n * 2 powr of_int 0"
    by (rule round_value_le_grid [OF k]) simp
  moreover have "of_int n * 2 powr of_int 0 \<le> round_value ?x"
    by (rule grid_le_round_value [OF k]) simp
  ultimately show ?thesis by simp
qed

lemma round_double_of_int:
  assumes "\<bar>n\<bar> < 2 ^ 53"
  shows "round_double (of_int n) = Finite (of_int n)"
proof -
  have "\<bar>of_int n :: real\<bar> = of_int \<bar>n\<bar>" by simp
  also have "\<dots> < of_int (2 ^ 53)" using assms by (simp only: of_int_less_iff)
  finally have "\<bar>of_int n :: real\<bar> < 2 ^ 1024"
    by simp
  then show ?thesis
    by (auto simp: round_double_def Let_def round_value_of_int [OF assms])
qed

section \<open>Properties of the rate limiter\<close>









lemma float_le_refl: "a \<noteq> NaN \<Longrightarrow> float_le a a"
  by (cases a) (simp_all add: float_le_def)


lemma round_double_numeral:
  "(numeral k :: int) < 2 ^ 53 \<Longrightarrow> round_double (numeral k) = Finite (numeral k)"
  "(numeral k :: int) < 2 ^ 53 \<Longrightarrow> round_double (- numeral k) = Finite (- numeral k)"
  using round_double_of_int [of "numeral k"] round_double_of_int [of "- numeral k"]
  by simp_all

lemma float_of_int_small:
  "\<bar>n\<bar> < 2 ^ 53 \<Longrightarrow> float_of_int n = Inr (Finite (of_int n))"
  by (simp add: float_of_int_def round_double_of_int)




section \<open>Properties of the asset cache\<close>

lemma expiry_days_positive: "0 < timedelta_days (expiry_days asset_type)"
  by (simp add: timedelta_days_def expiry_days_def CACHE_EXPIRY_def)

lemma is_cache_valid_entry:
  "cache_index c (get_cache_key a h) = Some info \<Longrightarrow>
   is_cache_valid (info_timestamp info + d) c a h = (d < timedelta_days (expiry_days a))"
  by (simp add: is_cache_valid_def)

lemma cache_data_entry:
  assumes "fst (cache_data dumps secs T c a h data) = None"
  shows "\<exists>info. cache_index (snd (cache_data dumps secs T c a h data)) (get_cache_key a h)
               = Some info
           \<and> info_timestamp info = T
           \<and> cache_dir (snd (cache_data dumps secs T c a h data)) (info_filename info)
               = Some (dumps data)"
  using assms
  by (auto simp: cache_data_def Let_def save_cache_index_def split: sum.splits)

lemma cache_data_raises:
  assumes "fst (cache_data dumps secs T c a h data) = Some exn"
  shows "cache_index (snd (cache_data dumps secs T c a h data)) = cache_index c"
  using assms
  by (auto simp: cache_data_def Let_def save_cache_index_def split: sum.splits)

lemma get_cached_data_total: "get_cached_data loads now c a h \<noteq> Inl exn"
  by (auto simp: get_cached_data_def is_cache_valid_def split: option.splits)

lemma cache_data_then_get:
  assumes "fst (cache_data dumps secs T c a h data) = None"
    and "loads (dumps data) = Some data"
    and "d < timedelta_days (expiry_days a)"
  shows "get_cached_data loads (T + d) (snd (cache_data dumps secs T c a h data)) a h
           = Inr data"
proof -
  obtain info where info:
    "cache_index (snd (cache_data dumps secs T c a h data)) (get_cache_key a h) = Some info"
    "info_timestamp info = T"
    "cache_dir (snd (cache_data dumps secs T c a h data)) (info_filename info)
       = Some (dumps data)"
    using cache_data_entry [OF assms(1)] by blast
  have "is_cache_valid (T + d) (snd (cache_data dumps secs T c a h data)) a h"
    using is_cache_valid_entry [OF info(1), of d] info(2) assms(3) by simp
  then show ?thesis
    using info assms(2) by (simp add: get_cached_data_def)
qed

lemma cache_data_other_key:
  "h1 \<noteq> h2 \<Longrightarrow>
   cache_index (snd (cache_data dumps secs T c a h1 data)) (get_cache_key a h2)
     = cache_index c (get_cache_key a h2)"
  by (auto simp: cache_data_def Let_def save_cache_index_def get_cache_key_def
      split: sum.splits)

text \<open>
  Claim C3: a validity check finds no entry for the key, and answers no; or the entry
  was written by \<^verbatim>\<open>cache_data\<close> at time \<open>T\<close>, and the check at time \<open>T + d\<close> answers yes
  exactly when \<open>d\<close> is less than the category's TTL in days; at exactly the TTL the
  entry has expired.
\<close>

theorem is_cache_valid_ttl:
  "(cache_index c (get_cache_key a h) = None \<longrightarrow> \<not> is_cache_valid now c a h)
   \<and> (fst (cache_data dumps secs T c a h data) = None \<longrightarrow>
        is_cache_valid (T + d) (snd (cache_data dumps secs T c a h data)) a h
          = (d < timedelta_days (expiry_days a))
        \<and> \<not> is_cache_valid (T + timedelta_days (expiry_days a))
              (snd (cache_data dumps secs T c a h data)) a h)"
proof -
  have miss: "cache_index c (get_cache_key a h) = None \<Longrightarrow> \<not> is_cache_valid now c a h"
    by (simp add: is_cache_valid_def)
  have hit: "is_cache_valid (T + x) (snd (cache_data dumps secs T c a h data)) a h
               = (x < timedelta_days (expiry_days a))"
    if "fst (cache_data dumps secs T c a h data) = None" for x
    using cache_data_entry [OF that] is_cache_valid_entry by blast
  show ?thesis using miss hit by simp
qed

theorem is_cache_valid_ttl_witness:
  "cache_index (AssetCache_init Map.empty Absent) (get_cache_key ''energy'' ''0123456789ab'') = None
   \<and> \<not> is_cache_valid 5 (AssetCache_init Map.empty Absent) ''energy'' ''0123456789ab''
   \<and> fst (cache_data (\<lambda>j. ''{}'') 1700000000 1700000000000000
            (AssetCache_init Map.empty Absent) ''energy'' ''0123456789ab'' (JObj [])) = None
   \<and> is_cache_valid (1700000000000000 + 259199999999)
        (snd (cache_data (\<lambda>j. ''{}'') 1700000000 1700000000000000
               (AssetCache_init Map.empty Absent) ''energy'' ''0123456789ab'' (JObj [])))
        ''energy'' ''0123456789ab''
   \<and> \<not> is_cache_valid (1700000000000000 + 259200000000)
        (snd (cache_data (\<lambda>j. ''{}'') 1700000000 1700000000000000
               (AssetCache_init Map.empty Absent) ''energy'' ''0123456789ab'' (JObj [])))
        ''energy'' ''0123456789ab''"
proof -
  have none: "cache_index (AssetCache_init Map.empty Absent)
                (get_cache_key ''energy'' ''0123456789ab'') = None"
    by (simp add: AssetCache_init_def load_cache_index_def)
  have ok: "fst (cache_data (\<lambda>j. ''{}'') 1700000000 1700000000000000
            (AssetCache_init Map.empty Absent) ''energy'' ''0123456789ab'' (JObj [])) = None"
    by (simp add: cache_data_def Let_def py_get_def py_len_def)
  have ttl: "timedelta_days (expiry_days ''energy'') = 259200000000"
    by (simp add: timedelta_days_def expiry_days_def CACHE_EXPIRY_def)
  show ?thesis
    using is_cache_valid_ttl [of "AssetCache_init Map.empty Absent" "''energy''"
        "''0123456789ab''" 5 "\<lambda>j. ''{}''" 1700000000 1700000000000000 "JObj []" 259199999999]
      none ok
    by (simp add: ttl)
qed

text \<open>
  Claim C4, as stated, holds for every payload. A payload whose \<^verbatim>\<open>"elements"\<close> entry
  has no length makes \<^verbatim>\<open>cache_data\<close> raise \<^verbatim>\<open>TypeError\<close> after the data file is written
  and before the index is updated, and the read that follows is a miss: here the
  payload is \<^verbatim>\<open>{"elements": 5}\<close>, on an empty cache, with a serialiser that round-trips
  this payload.
\<close>

theorem cache_round_trip_counterexample:
  \<open>fst (cache_data (\<lambda>j. ''{"elements":5}'') 1700000000 1700000000000000
          (AssetCache_init Map.empty Absent) ''military'' ''0123456789ab''
          (JObj [(''elements'', JInt 5)])) = Some TypeError
   \<and> get_cached_data (\<lambda>s. Some (JObj [(''elements'', JInt 5)])) 1700000000000000
        (snd (cache_data (\<lambda>j. ''{"elements":5}'') 1700000000 1700000000000000
               (AssetCache_init Map.empty Absent) ''military'' ''0123456789ab''
               (JObj [(''elements'', JInt 5)])))
        ''military'' ''0123456789ab''
       \<noteq> Inr (JObj [(''elements'', JInt 5)])\<close>
  by (simp add: cache_data_def Let_def py_get_def py_len_def get_cached_data_def
      is_cache_valid_def AssetCache_init_def load_cache_index_def)

text \<open>
  Claim C4, amended: when \<^verbatim>\<open>cache_data\<close> returns without raising (the payload is a
  dict whose \<^verbatim>\<open>"elements"\<close> entry, if there is one, has a length) and the payload
  survives serialisation (\<^verbatim>\<open>json.loads(json.dumps(p)) == p\<close>), a read of the same
  category and fingerprint before the TTL has passed returns the payload written.
\<close>

theorem cache_round_trip:
  assumes "fst (cache_data dumps secs T c a h data) = None"
    and "loads (dumps data) = Some data"
    and "d < timedelta_days (expiry_days a)"
  shows "get_cached_data loads (T + d) (snd (cache_data dumps secs T c a h data)) a h
           = Inr data"
  using cache_data_then_get [of dumps secs T c a h data loads d] assms by simp

theorem cache_round_trip_witness:
  \<open>get_cached_data
     (\<lambda>s. if s = ''{"elements":[1]}'' then Some (JObj [(''elements'', JArr [JInt 1])]) else None)
     (1700000000000000 + 0)
     (snd (cache_data (\<lambda>j. ''{"elements":[1]}'') 1700000000 1700000000000000
            (AssetCache_init Map.empty Absent) ''airports'' ''0123456789ab''
            (JObj [(''elements'', JArr [JInt 1])])))
     ''airports'' ''0123456789ab''
   = Inr (JObj [(''elements'', JArr [JInt 1])])\<close>
proof -
  have ok: \<open>fst (cache_data (\<lambda>j. ''{"elements":[1]}'') 1700000000 1700000000000000
            (AssetCache_init Map.empty Absent) ''airports'' ''0123456789ab''
            (JObj [(''elements'', JArr [JInt 1])])) = None\<close>
    by (simp add: cache_data_def Let_def py_get_def py_len_def)
  show ?thesis
    by (rule cache_round_trip [OF ok]) (simp_all add: expiry_days_positive)
qed

text \<open>
  Claim C8, as stated, names the categories \<open>airport\<close> and \<open>harbour\<close>. The keys of the
  table are \<^verbatim>\<open>"airports"\<close> and \<^verbatim>\<open>"harbours"\<close>; the name \<^verbatim>\<open>"harbour"\<close> is not in the table
  and gets the default, 7 days, not 14.
\<close>

theorem expiry_days_harbour_counterexample:
  "expiry_days ''harbour'' \<noteq> 14"
  by (simp add: expiry_days_def CACHE_EXPIRY_def)

text \<open>
  Claim C8, amended: the TTL is 7 days for \<^verbatim>\<open>"airports"\<close>, 14 for \<^verbatim>\<open>"harbours"\<close>, 30 for
  \<^verbatim>\<open>"military"\<close>, 3 for \<^verbatim>\<open>"energy"\<close>, 14 for \<^verbatim>\<open>"rail"\<close>, 30 for \<^verbatim>\<open>"border"\<close>, and 7 for
  every name that is not a key of the table.
\<close>

theorem expiry_days_table:
  "expiry_days ''airports'' = 7 \<and> expiry_days ''harbours'' = 14
   \<and> expiry_days ''military'' = 30 \<and> expiry_days ''energy'' = 3
   \<and> expiry_days ''rail'' = 14 \<and> expiry_days ''border'' = 30
   \<and> (asset_type \<notin> fst ` set CACHE_EXPIRY \<longrightarrow> expiry_days asset_type = 7)"
proof -
  have "asset_type \<notin> fst ` set CACHE_EXPIRY \<Longrightarrow> map_of CACHE_EXPIRY asset_type = None"
    by (simp add: map_of_eq_None_iff)
  then show ?thesis
    by (auto simp: expiry_days_def) (simp_all add: CACHE_EXPIRY_def)
qed

theorem expiry_days_table_witness:
  "''airport'' \<notin> fst ` set CACHE_EXPIRY \<and> expiry_days ''airport'' = 7"
proof -
  have "''airport'' \<notin> fst ` set CACHE_EXPIRY" by (simp add: CACHE_EXPIRY_def)
  then show ?thesis using expiry_days_table [of "''airport''"] by simp
qed

text \<open>
  Claim C9, as stated, makes the fingerprint injective. A fingerprint is at most twelve
  characters long, so there are finitely many fingerprints and infinitely many query
  texts: whatever the digest function is, two distinct query texts share a
  fingerprint.
\<close>

theorem query_hash_injective_counterexample:
  "\<not> (\<exists>md5_hexdigest. \<forall>q1 q2. q1 \<noteq> q2 \<longrightarrow>
         query_hash md5_hexdigest q1 \<noteq> query_hash md5_hexdigest q2)"
proof
  assume "\<exists>md5_hexdigest. \<forall>q1 q2. q1 \<noteq> q2 \<longrightarrow>
            query_hash md5_hexdigest q1 \<noteq> query_hash md5_hexdigest q2"
  then obtain f where "\<forall>q1 q2. q1 \<noteq> q2 \<longrightarrow> query_hash f q1 \<noteq> query_hash f q2"
    by blast
  then have inj: "inj (query_hash f)"
    by (auto simp: inj_def)
  have "range (query_hash f) \<subseteq> {s. set s \<subseteq> UNIV \<and> length s \<le> 12}"
    by (auto simp: query_hash_def)
  moreover have "finite {s :: string. set s \<subseteq> UNIV \<and> length s \<le> 12}"
    by (rule finite_lists_length_le) simp
  ultimately have "finite (range (query_hash f))"
    by (rule finite_subset)
  then have "finite (UNIV :: string set)"
    using inj by (rule finite_imageD)
  then show False
    by (simp add: infinite_UNIV_listI)
qed

text \<open>
  Claim C9, amended. The fingerprint is the first twelve characters of the digest of
  the query text, so equal texts have equal fingerprints and distinct texts can share
  one. Within one category, writing an entry under the fingerprint of one query text
  leaves the index untouched at the key of a query text with a different fingerprint,
  and if there was no entry at that key the read for that text is a miss. When two
  query texts have the same fingerprint, the entry written for one of them is served
  for the other.
\<close>

theorem query_hash_cache_key:
  "query_hash md5_hexdigest q1 = take 12 (md5_hexdigest q1)
   \<and> (q1 = q2 \<longrightarrow> query_hash md5_hexdigest q1 = query_hash md5_hexdigest q2)
   \<and> (query_hash md5_hexdigest q1 \<noteq> query_hash md5_hexdigest q2 \<longrightarrow>
        cache_index
          (snd (cache_data dumps secs T c a (query_hash md5_hexdigest q1) data))
          (get_cache_key a (query_hash md5_hexdigest q2))
          = cache_index c (get_cache_key a (query_hash md5_hexdigest q2))
        \<and> (cache_index c (get_cache_key a (query_hash md5_hexdigest q2)) = None \<longrightarrow>
             get_cached_data loads now
               (snd (cache_data dumps secs T c a (query_hash md5_hexdigest q1) data))
               a (query_hash md5_hexdigest q2)
               = Inr JNull))
   \<and> (query_hash md5_hexdigest q1 = query_hash md5_hexdigest q2 \<longrightarrow>
        fst (cache_data dumps secs T c a (query_hash md5_hexdigest q1) data) = None \<longrightarrow>
        loads (dumps data) = Some data \<longrightarrow>
        d < timedelta_days (expiry_days a) \<longrightarrow>
          get_cached_data loads (T + d)
            (snd (cache_data dumps secs T c a (query_hash md5_hexdigest q1) data))
            a (query_hash md5_hexdigest q2)
            = Inr data)"
proof -
  let ?h1 = "query_hash md5_hexdigest q1" and ?h2 = "query_hash md5_hexdigest q2"
  let ?c = "snd (cache_data dumps secs T c a ?h1 data)"
  have other: "cache_index ?c (get_cache_key a ?h2) = cache_index c (get_cache_key a ?h2)"
    if "?h1 \<noteq> ?h2"
    using that by (rule cache_data_other_key)
  have miss: "get_cached_data loads now ?c a ?h2 = Inr JNull"
    if "?h1 \<noteq> ?h2" "cache_index c (get_cache_key a ?h2) = None"
    using other [OF that(1)] that(2) by (simp add: get_cached_data_def is_cache_valid_def)
  have served: "get_cached_data loads (T + d) ?c a ?h2 = Inr data"
    if "?h1 = ?h2" "fst (cache_data dumps secs T c a ?h1 data) = None"
      "loads (dumps data) = Some data" "d < timedelta_days (expiry_days a)"
    using cache_data_then_get [of dumps secs T c a ?h1 data loads d] that by simp
  show ?thesis
    using other miss served by (simp add: query_hash_def)
qed

theorem query_hash_cache_key_witness:
  \<open>query_hash (\<lambda>q. q) ''airports_csv_ourairports'' = ''airports_csv''
   \<and> query_hash (\<lambda>q. q) ''airports_csv_v2'' = ''airports_csv''
   \<and> query_hash (\<lambda>q. q) ''harbours_overpass'' = ''harbours_ove''
   \<and> get_cached_data (\<lambda>s. Some (JObj [(''elements'', JArr [JInt 1])])) 1700000000000000
        (snd (cache_data (\<lambda>j. ''{"elements":[1]}'') 1700000000 1700000000000000
               (AssetCache_init Map.empty Absent) ''airports''
               (query_hash (\<lambda>q. q) ''airports_csv_ourairports'')
               (JObj [(''elements'', JArr [JInt 1])])))
        ''airports'' (query_hash (\<lambda>q. q) ''harbours_overpass'')
       = Inr JNull
   \<and> get_cached_data (\<lambda>s. Some (JObj [(''elements'', JArr [JInt 1])]))
        (1700000000000000 + 0)
        (snd (cache_data (\<lambda>j. ''{"elements":[1]}'') 1700000000 1700000000000000
               (AssetCache_init Map.empty Absent) ''airports''
               (query_hash (\<lambda>q. q) ''airports_csv_ourairports'')
               (JObj [(''elements'', JArr [JInt 1])])))
        ''airports'' (query_hash (\<lambda>q. q) ''airports_csv_v2'')
       = Inr (JObj [(''elements'', JArr [JInt 1])])\<close>
proof -
  let ?data = "JObj [(''elements'', JArr [JInt 1])]"
  have hashes: "query_hash (\<lambda>q. q) ''airports_csv_ourairports'' = ''airports_csv''"
    "query_hash (\<lambda>q. q) ''airports_csv_v2'' = ''airports_csv''"
    "query_hash (\<lambda>q. q) ''harbours_overpass'' = ''harbours_ove''"
    by (simp_all add: query_hash_def)
  have none: "cache_index (AssetCache_init Map.empty Absent)
                (get_cache_key ''airports'' ''harbours_ove'') = None"
    by (simp add: AssetCache_init_def load_cache_index_def)
  have ok: "fst (cache_data dumps 1700000000 1700000000000000
            (AssetCache_init Map.empty Absent) ''airports'' ''airports_csv'' ?data) = None"
    for dumps
    by (simp add: cache_data_def Let_def py_get_def py_len_def)
  show ?thesis
    using query_hash_cache_key [of "\<lambda>q. q" "''airports_csv_ourairports''"
        "''harbours_overpass''" _ 1700000000 1700000000000000
        "AssetCache_init Map.empty Absent" "''airports''" ?data
        "\<lambda>s. Some ?data" 1700000000000000 0]
      query_hash_cache_key [of "\<lambda>q. q" "''airports_csv_ourairports''"
        "''airports_csv_v2''" _ 1700000000 1700000000000000
        "AssetCache_init Map.empty Absent" "''airports''" ?data
        "\<lambda>s. Some ?data" 1700000000000000 0]
      none ok
    by (simp add: hashes expiry_days_positive)
qed

text \<open>
  Claim C10: the index has an entry for the key and the entry has not expired, but the
  file it names is missing, or is there and does not parse. Then \<^verbatim>\<open>get_cached_data\<close>
  returns \<^verbatim>\<open>None\<close> and does not raise.
\<close>

theorem get_cached_data_broken_file:
  assumes "cache_index c (get_cache_key a h) = Some info"
    and "is_cache_valid now c a h"
    and "cache_dir c (info_filename info) = None
         \<or> (\<exists>text. cache_dir c (info_filename info) = Some text \<and> loads text = None)"
  shows "get_cached_data loads now c a h = Inr JNull"
  using assms by (auto simp: get_cached_data_def)

theorem get_cached_data_broken_file_witness:
  "(let info = \<lparr>info_asset_type = ''military'', info_query_hash = ''0123456789ab'',
                 info_filename = ''military_0123456789ab_1700000000.json'',
                 info_timestamp = 1700000000000000, info_size = 0, info_file_size = 15\<rparr>;
        missing = \<lparr>cache_index = [''military_0123456789ab'' \<mapsto> info],
                    cache_dir = Map.empty, cache_index_path = Absent\<rparr>;
        broken = missing\<lparr>cache_dir :=
                    [''military_0123456789ab_1700000000.json'' \<mapsto> ''{ elements: ['']\<rparr>
    in is_cache_valid 1700000000000001 missing ''military'' ''0123456789ab''
       \<and> get_cached_data (\<lambda>s. None) 1700000000000001 missing ''military'' ''0123456789ab''
           = Inr JNull
       \<and> is_cache_valid 1700000000000001 broken ''military'' ''0123456789ab''
       \<and> get_cached_data (\<lambda>s. None) 1700000000000001 broken ''military'' ''0123456789ab''
           = Inr JNull)"
proof -
  define info where "info = \<lparr>info_asset_type = ''military'', info_query_hash = ''0123456789ab'',
                 info_filename = ''military_0123456789ab_1700000000.json'',
                 info_timestamp = 1700000000000000, info_size = 0, info_file_size = 15\<rparr>"
  define missing where "missing = \<lparr>cache_index = [''military_0123456789ab'' \<mapsto> info],
                    cache_dir = Map.empty, cache_index_path = Absent\<rparr>"
  define broken where "broken = missing\<lparr>cache_dir :=
                    [''military_0123456789ab_1700000000.json'' \<mapsto> ''{ elements: ['']\<rparr>"
  have key: "get_cache_key ''military'' ''0123456789ab'' = ''military_0123456789ab''"
    by (simp add: get_cache_key_def)
  have entry: "cache_index missing (get_cache_key ''military'' ''0123456789ab'') = Some info"
    "cache_index broken (get_cache_key ''military'' ''0123456789ab'') = Some info"
    by (simp_all add: key missing_def broken_def)
  have valid: "is_cache_valid 1700000000000001 missing ''military'' ''0123456789ab''"
    "is_cache_valid 1700000000000001 broken ''military'' ''0123456789ab''"
    using entry
    by (simp_all add: is_cache_valid_def info_def timedelta_days_def expiry_days_def
        CACHE_EXPIRY_def)
  have no_file: "cache_dir missing (info_filename info) = None"
    by (simp add: missing_def)
  have bad_file: "cache_dir broken (info_filename info) = Some ''{ elements: [''"
    by (simp add: broken_def missing_def info_def)
  have "get_cached_data (\<lambda>s. None) 1700000000000001 missing ''military'' ''0123456789ab''
          = Inr JNull"
    using get_cached_data_broken_file [OF entry(1) valid(1), of "\<lambda>s. None"] no_file by simp
  moreover have "get_cached_data (\<lambda>s. None) 1700000000000001 broken ''military'' ''0123456789ab''
          = Inr JNull"
    using get_cached_data_broken_file [OF entry(2) valid(2), of "\<lambda>s. None"] bad_file by simp
  ultimately show ?thesis
    using valid by (simp add: Let_def info_def missing_def broken_def)
qed

section \<open>Properties of the query executor and of the chunked download\<close>

lemma example_sleep [simp]:
  "time_sleep (example_env net) now t
     = (if t < 0 then Some ValueError
        else if 2 ^ 63 \<le> t * 10 ^ 9 then Some OverflowError else None)"
  by (simp add: example_env_def)

lemma attempts_step_fail:
  assumes "urlopen e (length (requests w)) q = Inl exn"
  shows "attempts e q mr (i # rest) w =
           (if int i = mr - 1 then (empty_result, w\<lparr>requests := requests w @ [q]\<rparr>)
            else attempts e q mr rest (w\<lparr>requests := requests w @ [q]\<rparr>))"
  using assms by (simp add: attempts.simps(2) Let_def)

lemma attempts_step_ok:
  assumes "urlopen e (length (requests w)) q = Inr response"
  shows "attempts e q mr (i # rest) w = (response, w\<lparr>requests := requests w @ [q]\<rparr>)"
  using assms by (simp add: attempts.simps(2) Let_def)

lemma attempts_all_fail:
  assumes "\<forall>k < n - i. \<exists>exn. urlopen e (length (requests w) + k) q = Inl exn"
    and "n = nat mr" and "i \<le> n"
  shows "attempts e q mr [i..<n] w
           = (empty_result, w\<lparr>requests := requests w @ replicate (n - i) q\<rparr>)"
  using assms
proof (induction "n - i" arbitrary: i w)
  case 0
  then have "[i..<n] = []" by simp
  moreover have "replicate (n - i) q = []" using 0 by simp
  ultimately show ?case by simp
next
  case (Suc d)
  then have lt: "i < n" by simp
  have upt: "[i..<n] = i # [Suc i..<n]" using lt by (rule upt_conv_Cons)
  have "0 < n - i" using lt by simp
  with Suc.prems(1) have "\<exists>exn. urlopen e (length (requests w) + 0) q = Inl exn" by blast
  then obtain exn where first: "urlopen e (length (requests w)) q = Inl exn" by auto
  let ?w1 = "w\<lparr>requests := requests w @ [q]\<rparr>"
  have step: "attempts e q mr [i..<n] w =
           (if int i = mr - 1 then (empty_result, ?w1)
            else attempts e q mr [Suc i..<n] ?w1)"
    unfolding upt by (rule attempts_step_fail [OF first])
  show ?case
  proof (cases "int i = mr - 1")
    case True
    then have "n - i = Suc 0" using Suc.prems(2) lt by simp
    then have "replicate (n - i) q = [q]" by simp
    then show ?thesis using True step by simp
  next
    case False
    have d: "d = n - Suc i" using Suc.hyps(2) by simp
    have fails: "\<forall>k < n - Suc i. \<exists>exn. urlopen e (length (requests ?w1) + k) q = Inl exn"
    proof (intro allI impI)
      fix k assume "k < n - Suc i"
      then have "Suc k < n - i" by simp
      with Suc.prems(1) have "\<exists>exn. urlopen e (length (requests w) + Suc k) q = Inl exn"
        by blast
      then show "\<exists>exn. urlopen e (length (requests ?w1) + k) q = Inl exn" by simp
    qed
    have le: "Suc i \<le> n" using lt by simp
    have ih: "attempts e q mr [Suc i..<n] ?w1
            = (empty_result, ?w1\<lparr>requests := requests ?w1 @ replicate (n - Suc i) q\<rparr>)"
      by (rule Suc.hyps(1) [OF d fails Suc.prems(2) le])
    have "n - i = Suc (n - Suc i)" using lt by simp
    then have "replicate (n - i) q = q # replicate (n - Suc i) q" by simp
    then show ?thesis using False step ih by simp
  qed
qed

text \<open>
  Claim C5: when every attempt of \<^verbatim>\<open>execute_query_with_retry\<close> fails, the function
  returns \<^verbatim>\<open>{"elements": []}\<close>, after exactly \<^verbatim>\<open>max_retries\<close> calls of \<^verbatim>\<open>urlopen\<close>. The
  function has no exceptional outcome: the exceptions of an attempt are values of the
  network outcome and are all caught by the handler of the loop.
\<close>

theorem execute_query_exhausted:
  assumes "1 \<le> max_retries"
    and "\<forall>k < nat max_retries. \<exists>exn. urlopen e (length (requests w) + k) query = Inl exn"
  shows "execute_query_with_retry e query max_retries w
           = (JObj [(''elements'', JArr [])],
              w\<lparr>requests := requests w @ replicate (nat max_retries) query\<rparr>)"
proof -
  have "attempts e query max_retries [0..<nat max_retries] w
          = (empty_result, w\<lparr>requests := requests w @ replicate (nat max_retries - 0) query\<rparr>)"
    by (rule attempts_all_fail) (use assms(2) in simp_all)
  then show ?thesis
    by (simp add: execute_query_with_retry_def empty_result_def)
qed

theorem execute_query_exhausted_witness:
  "execute_query_with_retry (example_env (\<lambda>k q. Inl URLError)) ''[out:json];'' 3 example_world
     = (JObj [(''elements'', JArr [])],
        example_world\<lparr>requests := [''[out:json];'', ''[out:json];'', ''[out:json];'']\<rparr>)"
proof -
  have fails: "\<forall>k < nat 3. \<exists>exn.
      urlopen (example_env (\<lambda>k q. Inl URLError)) (length (requests example_world) + k)
        ''[out:json];'' = Inl exn"
    by (simp add: example_env_def)
  have three: "replicate (nat 3) ''[out:json];'' = [''[out:json];'', ''[out:json];'', ''[out:json];'']"
    by (simp add: numeral_3_eq_3)
  have "requests example_world = []"
    by (simp add: example_world_def)
  then show ?thesis
    using execute_query_exhausted [of 3, OF _ fails] three by simp
qed

lemma attempts_world:
  "\<exists>k. k \<le> length as \<and> (as \<noteq> [] \<longrightarrow> 1 \<le> k)
       \<and> snd (attempts e q mr as w) = w\<lparr>requests := requests w @ replicate k q\<rparr>"
proof (induction as arbitrary: w)
  case Nil
  show ?case by simp
next
  case (Cons i rest)
  let ?w1 = "w\<lparr>requests := requests w @ [q]\<rparr>"
  have one: "?w1 = w\<lparr>requests := requests w @ replicate 1 q\<rparr>" by simp
  show ?case
  proof (cases "urlopen e (length (requests w)) q")
    case (Inr response)
    have "snd (attempts e q mr (i # rest) w) = ?w1"
      by (simp add: attempts_step_ok [OF Inr])
    with one show ?thesis by (intro exI [of _ 1]) simp
  next
    case (Inl exn)
    show ?thesis
    proof (cases "int i = mr - 1")
      case True
      then have "snd (attempts e q mr (i # rest) w) = ?w1"
        by (simp add: attempts_step_fail [OF Inl])
      with one show ?thesis by (intro exI [of _ 1]) simp
    next
      case False
      from Cons.IH [of ?w1] obtain k where k: "k \<le> length rest"
        "snd (attempts e q mr rest ?w1) = ?w1\<lparr>requests := requests ?w1 @ replicate k q\<rparr>"
        by blast
      have "snd (attempts e q mr (i # rest) w) = snd (attempts e q mr rest ?w1)"
        using False by (simp add: attempts_step_fail [OF Inl])
      also have "\<dots> = w\<lparr>requests := requests w @ replicate (Suc k) q\<rparr>"
        using k(2) by simp
      finally show ?thesis using k(1) by (intro exI [of _ "Suc k"]) simp
    qed
  qed
qed

lemma upt_nat_3: "[0..<nat 3] = [0, 1, 2]"
  by (simp add: numeral_3_eq_3 upt_rec)

lemma execute_query_world:
  "\<exists>k. 1 \<le> k \<and> k \<le> 3
       \<and> snd (execute_query_with_retry e q 3 w) = w\<lparr>requests := requests w @ replicate k q\<rparr>"
proof -
  have three: "[0..<nat 3] = [0, 1, 2]"
    by (rule upt_nat_3)
  from attempts_world [of "[0, 1, 2]" e q 3 w]
  obtain k where "k \<le> length [0::nat, 1, 2]" "1 \<le> k"
    "snd (attempts e q 3 [0, 1, 2] w) = w\<lparr>requests := requests w @ replicate k q\<rparr>"
    by blast
  then show ?thesis
    unfolding execute_query_with_retry_def three by (intro exI [of _ k]) simp
qed

lemma execute_query_attempts:
  "1 \<le> length (requests (snd (execute_query_with_retry e q 3 w))) - length (requests w)
   \<and> length (requests (snd (execute_query_with_retry e q 3 w))) - length (requests w) \<le> 3
   \<and> snd (execute_query_with_retry e q 3 w)
       = w\<lparr>requests := requests w @
            replicate (length (requests (snd (execute_query_with_retry e q 3 w)))
                         - length (requests w)) q\<rparr>"
proof -
  from execute_query_world [of e q w] obtain k where k: "1 \<le> k" "k \<le> 3"
    "snd (execute_query_with_retry e q 3 w) = w\<lparr>requests := requests w @ replicate k q\<rparr>"
    by blast
  have "length (requests (snd (execute_query_with_retry e q 3 w))) - length (requests w) = k"
    by (simp add: k(3))
  then show ?thesis using k by simp
qed

lemma execute_query_asset_dir:
  "asset_dir (snd (execute_query_with_retry e q 3 w)) = asset_dir w
   \<and> clock (snd (execute_query_with_retry e q 3 w)) = clock w"
proof -
  from execute_query_world [of e q w] obtain k where
    "snd (execute_query_with_retry e q 3 w) = w\<lparr>requests := requests w @ replicate k q\<rparr>"
    by blast
  then show ?thesis by simp
qed

lemma features_of_empty_result: "features_of_response fos empty_result = Inr []"
  by (simp add: features_of_response_def empty_result_def py_get_def and_then_def
      process_military_elements_def py_iter_def)



lemma military_regions_run:
  assumes "\<forall>d \<in> set (region_responses e regions w).
             d \<noteq> empty_result \<longrightarrow> (\<exists>fs. features_of_response (float_of_str e) d = Inr fs)"
  shows "military_regions e regions acc w
           = (Inr (acc @ concat (map (feature_list (float_of_str e))
                                   (region_responses e regions w))),
              w\<lparr>requests := requests w @
                   region_requests regions (region_attempts e regions w)\<rparr>)"
  using assms
proof (induction regions arbitrary: acc w)
  case Nil
  show ?case by simp
next
  case (Cons region rest)
  obtain region_name bbox where region: "region = (region_name, bbox)"
    by (cases region)
  obtain osm_data w1 where ex:
    "execute_query_with_retry e (military_query bbox) 3 w = (osm_data, w1)"
    by (cases "execute_query_with_retry e (military_query bbox) 3 w")
  let ?k = "length (requests w1) - length (requests w)"
  have w1: "w1 = w\<lparr>requests := requests w @ replicate ?k (military_query bbox)\<rparr>"
    using execute_query_attempts [of e "military_query bbox" w] by (simp add: ex)
  have responses: "region_responses e (region # rest) w = osm_data # region_responses e rest w1"
    by (simp add: region ex)
  have "\<exists>fs. features_of_response (float_of_str e) osm_data = Inr fs"
    using Cons.prems responses features_of_empty_result by (cases "osm_data = empty_result") auto
  then obtain fs where fs: "features_of_response (float_of_str e) osm_data = Inr fs"
    by blast
  then have fl: "feature_list (float_of_str e) osm_data = fs"
    by (simp add: feature_list_def)
  have rest: "\<forall>d \<in> set (region_responses e rest w1).
             d \<noteq> empty_result \<longrightarrow> (\<exists>fs. features_of_response (float_of_str e) d = Inr fs)"
    using Cons.prems responses by simp
  have ih: "military_regions e rest (acc @ fs) w1
           = (Inr ((acc @ fs) @ concat (map (feature_list (float_of_str e))
                                   (region_responses e rest w1))),
              w1\<lparr>requests := requests w1 @
                   region_requests rest (region_attempts e rest w1)\<rparr>)"
    by (rule Cons.IH [OF rest])
  have world: "w1\<lparr>requests := requests w1 @ region_requests rest (region_attempts e rest w1)\<rparr>
      = w\<lparr>requests := requests w @
             region_requests (region # rest) (region_attempts e (region # rest) w)\<rparr>"
    by (subst (1 2) w1) (simp add: region ex)
  show ?case
    using ih world by (simp add: region ex fs responses fl)
qed

lemma execute_query_unfold: "execute_query_with_retry e q 3 w = attempts e q 3 [0, 1, 2] w"
  by (simp only: execute_query_with_retry_def upt_nat_3)

lemmas process_defs =
  features_of_response_def process_military_elements_def py_iter_def
  process_military_element_def and_then_def py_get_def py_float_def py_or_def truthy_def
  feature_list_def float_of_int_small

lemma download_military_chunked_run:
  assumes "\<forall>d \<in> set (region_responses e EU_REGIONS w).
             d \<noteq> empty_result \<longrightarrow> (\<exists>fs. features_of_response (float_of_str e) d = Inr fs)"
  shows "download_military_chunked e w
           = (None,
              save_geojson e
                (concat (map (feature_list (float_of_str e)) (region_responses e EU_REGIONS w)))
                ''military.geojson'' ''military''
                (w\<lparr>requests := requests w @
                      region_requests EU_REGIONS (region_attempts e EU_REGIONS w)\<rparr>))"
proof -
  have "military_regions e EU_REGIONS [] w
           = (Inr ([] @ concat (map (feature_list (float_of_str e))
                                   (region_responses e EU_REGIONS w))),
              w\<lparr>requests := requests w @
                   region_requests EU_REGIONS (region_attempts e EU_REGIONS w)\<rparr>)"
    by (rule military_regions_run [OF assms])
  then show ?thesis
    by (simp add: download_military_chunked_def)
qed





section \<open>Properties of the download manager\<close>

lemma run_strategies_failed:
  assumes "try_strategy e s a (rate_limiter m) w = (r, rl, w1)" and "r \<noteq> Inr True"
  shows "run_strategies e ((name, s) # rest) a start m w
           = run_strategies e rest a start (m\<lparr>rate_limiter := after_failed r rl\<rparr>) w1"
  using assms
  by (auto simp: try_strategy_def after_failed_def split: prod.splits sum.splits bool.splits)

lemma run_strategies_succeeded:
  assumes "try_strategy e s a (rate_limiter m) w = (Inr True, rl, w1)"
  shows "run_strategies e ((name, s) # rest) a start m w
           = (True,
              m\<lparr>rate_limiter := record_success rl,
                operations := operations m @
                  [\<lparr>op_asset_type = a, op_strategy = name,
                    op_duration = clock w1 - start, op_timestamp = clock w1,
                    op_success = True\<rparr>]\<rparr>,
              w1)"
  using assms
  by (auto simp: try_strategy_def split: prod.splits sum.splits bool.splits)

lemma run_strategies_one_record:
  "\<exists>op. operations (fst (snd (run_strategies e ss a start m w))) = operations m @ [op]
         \<and> op_asset_type op = a
         \<and> op_success op = fst (run_strategies e ss a start m w)
         \<and> (if fst (run_strategies e ss a start m w) then op_strategy op \<in> fst ` set ss
             else op_strategy op = ''all_failed'')"
proof (induction ss arbitrary: m w)
  case Nil
  show ?case by simp
next
  case (Cons named rest)
  obtain name s where named: "named = (name, s)"
    by (cases named)
  obtain r rl w1 where round: "try_strategy e s a (rate_limiter m) w = (r, rl, w1)"
    by (cases "try_strategy e s a (rate_limiter m) w")
  show ?case
  proof (cases "r = Inr True")
    case True
    then show ?thesis
      unfolding named using run_strategies_succeeded [of e s a m w rl w1 name rest start] round
      by simp
  next
    case False
    have step: "run_strategies e ((name, s) # rest) a start m w
           = run_strategies e rest a start (m\<lparr>rate_limiter := after_failed r rl\<rparr>) w1"
      by (rule run_strategies_failed [OF round False])
    from Cons.IH [of "m\<lparr>rate_limiter := after_failed r rl\<rparr>" w1]
    show ?thesis
      unfolding named step by (auto split: if_splits)
  qed
qed

text \<open>
  Claim C2, as stated: when the first two strategies fail and the third succeeds, two
  failure records precede the success record. For the asset type \<^verbatim>\<open>airports\<close>, with no
  cached file, \<^verbatim>\<open>_try_cached_download\<close> and \<^verbatim>\<open>_try_optimized_download\<close> return
  \<^verbatim>\<open>False\<close> and \<^verbatim>\<open>_try_alternative_sources\<close> succeeds; the report then holds the success
  record and nothing else.
\<close>

theorem failure_records_counterexample:
  "fst (download_with_fallback (example_env (\<lambda>k q. Inl URLError)) ''airports''
          (DownloadManager_init DownloadConfig_default 1000) example_world)
   \<and> operations (fst (snd (download_with_fallback (example_env (\<lambda>k q. Inl URLError))
          ''airports'' (DownloadManager_init DownloadConfig_default 1000) example_world)))
       = [\<lparr>op_asset_type = ''airports'', op_strategy = ''_try_alternative_sources'',
           op_duration = 60, op_timestamp = 1060, op_success = True\<rparr>]
   \<and> length (filter (\<lambda>op. \<not> op_success op)
         (operations (fst (snd (download_with_fallback (example_env (\<lambda>k q. Inl URLError))
            ''airports'' (DownloadManager_init DownloadConfig_default 1000) example_world)))))
       \<noteq> 2"
proof -
  have run: "download_with_fallback (example_env (\<lambda>k q. Inl URLError)) ''airports''
          (DownloadManager_init DownloadConfig_default 1000) example_world
       = (True,
          (DownloadManager_init DownloadConfig_default 1000)
            \<lparr>rate_limiter := \<lparr>base_delay = Finite 30, last_request = 1060,
                               consecutive_failures = 0, total_requests = 3\<rparr>,
             operations := [\<lparr>op_asset_type = ''airports'',
                              op_strategy = ''_try_alternative_sources'',
                              op_duration = 60, op_timestamp = 1060, op_success = True\<rparr>]\<rparr>,
          example_world\<lparr>clock := 1060\<rparr>)"
    by (simp add: download_with_fallback_def strategies_def DownloadManager_init_def
        DownloadConfig_default_def RateLimiter_init_def example_world_def example_env_def
        try_cached_download_def try_optimized_download_def try_alternative_sources_def
        returning_True_def wait_if_needed_def wait_time_def required_delay_def
        record_success_def Let_def)
  show ?thesis
    by (simp add: run)
qed

lemma failing_prefix_all_failed:
  assumes "failing_prefix e ss a (rate_limiter m) w = Some (rs, rl, w1)"
  shows "run_strategies e ss a start m w
           = (False,
              m\<lparr>rate_limiter := rl,
                operations := operations m @
                  [\<lparr>op_asset_type = a, op_strategy = ''all_failed'',
                    op_duration = clock w1 - start, op_timestamp = clock w1,
                    op_success = False\<rparr>]\<rparr>,
              w1)"
  using assms
proof (induction ss arbitrary: m w rs)
  case Nil
  then show ?case by simp
next
  case (Cons named rest)
  obtain name s where named: "named = (name, s)"
    by (cases named)
  obtain r rl1 w2 where round: "try_strategy e s a (rate_limiter m) w = (r, rl1, w2)"
    by (cases "try_strategy e s a (rate_limiter m) w")
  from Cons.prems have failed: "r \<noteq> Inr True"
    by (auto simp: named round split: if_splits)
  from Cons.prems obtain rs' where rest:
    "failing_prefix e rest a (after_failed r rl1) w2 = Some (rs', rl, w1)"
    by (auto simp: named round failed split: option.splits)
  let ?m1 = "m\<lparr>rate_limiter := after_failed r rl1\<rparr>"
  have "run_strategies e (named # rest) a start m w = run_strategies e rest a start ?m1 w2"
    unfolding named by (rule run_strategies_failed [OF round failed])
  also have "\<dots> = (False,
              ?m1\<lparr>rate_limiter := rl,
                operations := operations ?m1 @
                  [\<lparr>op_asset_type = a, op_strategy = ''all_failed'',
                    op_duration = clock w1 - start, op_timestamp = clock w1,
                    op_success = False\<rparr>]\<rparr>,
              w1)"
    by (rule Cons.IH) (simp add: rest)
  finally show ?case by simp
qed

lemma failing_prefix_then_success:
  assumes "failing_prefix e pre a (rate_limiter m) w = Some (rs, rl, w1)"
    and "try_strategy e s a rl w1 = (Inr True, rl2, w2)"
  shows "run_strategies e (pre @ (name, s) # post) a start m w
           = (True,
              m\<lparr>rate_limiter := record_success rl2,
                operations := operations m @
                  [\<lparr>op_asset_type = a, op_strategy = name,
                    op_duration = clock w2 - start, op_timestamp = clock w2,
                    op_success = True\<rparr>]\<rparr>,
              w2)"
  using assms
proof (induction pre arbitrary: m w rs)
  case Nil
  then show ?case
    using run_strategies_succeeded [of e s a m w rl2 w2 name post start] by simp
next
  case (Cons named rest)
  obtain name' s' where named: "named = (name', s')"
    by (cases named)
  obtain r rl1 w3 where round: "try_strategy e s' a (rate_limiter m) w = (r, rl1, w3)"
    by (cases "try_strategy e s' a (rate_limiter m) w")
  from Cons.prems(1) have failed: "r \<noteq> Inr True"
    by (auto simp: named round split: if_splits)
  from Cons.prems(1) obtain rs' where rest:
    "failing_prefix e rest a (after_failed r rl1) w3 = Some (rs', rl, w1)"
    by (auto simp: named round failed split: option.splits)
  let ?m1 = "m\<lparr>rate_limiter := after_failed r rl1\<rparr>"
  have "run_strategies e ((named # rest) @ (name, s) # post) a start m w
          = run_strategies e (rest @ (name, s) # post) a start ?m1 w3"
    unfolding named append_Cons by (rule run_strategies_failed [OF round failed])
  also have "\<dots> = (True,
              ?m1\<lparr>rate_limiter := record_success rl2,
                operations := operations ?m1 @
                  [\<lparr>op_asset_type = a, op_strategy = name,
                    op_duration = clock w2 - start, op_timestamp = clock w2,
                    op_success = True\<rparr>]\<rparr>,
              w2)"
    by (rule Cons.IH [OF _ Cons.prems(2)]) (simp add: rest)
  finally show ?case by simp
qed

lemma try_strategy_failures:
  "try_strategy e s a rl w = (r, rl1, w1) \<Longrightarrow> consecutive_failures rl1 = consecutive_failures rl"
  by (auto simp: try_strategy_def wait_if_needed_def split: sum.splits prod.splits)

lemma failing_prefix_answers:
  assumes "failing_prefix e pre a rl0 w = Some (rs, rl, w1)"
  shows "length rs = length pre \<and> Inr True \<notin> set rs
         \<and> consecutive_failures rl = consecutive_failures rl0 + length (filter isl rs)"
  using assms
proof (induction pre arbitrary: rl0 w rs)
  case Nil
  then show ?case by simp
next
  case (Cons named rest)
  obtain name s where named: "named = (name, s)"
    by (cases named)
  obtain r rl1 w2 where round: "try_strategy e s a rl0 w = (r, rl1, w2)"
    by (cases "try_strategy e s a rl0 w")
  from Cons.prems have failed: "r \<noteq> Inr True"
    by (auto simp: named round split: if_splits)
  from Cons.prems obtain rs' where rest:
    "failing_prefix e rest a (after_failed r rl1) w2 = Some (rs', rl, w1)" and rs: "rs = r # rs'"
    by (auto simp: named round failed split: option.splits)
  have "consecutive_failures (after_failed r rl1)
          = consecutive_failures rl0 + (if isl r then 1 else 0)"
    using try_strategy_failures [OF round]
    by (cases r) (simp_all add: after_failed_def record_failure_def)
  then show ?case
    using Cons.IH [OF rest] failed by (auto simp: rs)
qed

text \<open>
  Claim C2, amended. When the strategies before one all fail and that one succeeds, in
  particular when the first two fail and the third succeeds, the run returns \<^verbatim>\<open>True\<close>
  and appends one record to the report, the success record with the name of the
  strategy that succeeded; no record is written for a failed strategy. When all
  strategies fail the run returns \<^verbatim>\<open>False\<close> and appends one failure record with the
  name \<^verbatim>\<open>all_failed\<close>. Every failed strategy that raised has been counted by
  \<^verbatim>\<open>record_failure\<close> on the limiter and none that returned a false value has; the
  success resets the count.
\<close>

theorem third_strategy_recorded:
  "(try_strategy e s1 a (rate_limiter m) w = (r1, rl1, w1) \<longrightarrow> r1 \<noteq> Inr True \<longrightarrow>
    try_strategy e s2 a (after_failed r1 rl1) w1 = (r2, rl2, w2) \<longrightarrow> r2 \<noteq> Inr True \<longrightarrow>
    try_strategy e s3 a (after_failed r2 rl2) w2 = (Inr True, rl3, w3) \<longrightarrow>
      run_strategies e ((n1, s1) # (n2, s2) # (n3, s3) # post) a start m w
        = (True,
           m\<lparr>rate_limiter := record_success rl3,
             operations := operations m @
               [\<lparr>op_asset_type = a, op_strategy = n3,
                 op_duration = clock w3 - start, op_timestamp = clock w3,
                 op_success = True\<rparr>]\<rparr>,
           w3))
   \<and> (failing_prefix e pre a (rate_limiter m) w = Some (rs, rl, w_end) \<longrightarrow>
        try_strategy e s a rl w_end = (Inr True, rl', w') \<longrightarrow>
          run_strategies e (pre @ (name, s) # post) a start m w
            = (True,
               m\<lparr>rate_limiter := record_success rl',
                 operations := operations m @
                   [\<lparr>op_asset_type = a, op_strategy = name,
                     op_duration = clock w' - start, op_timestamp = clock w',
                     op_success = True\<rparr>]\<rparr>,
               w'))
   \<and> (failing_prefix e pre a (rate_limiter m) w = Some (rs, rl, w_end) \<longrightarrow>
          run_strategies e pre a start m w
            = (False,
               m\<lparr>rate_limiter := rl,
                 operations := operations m @
                   [\<lparr>op_asset_type = a, op_strategy = ''all_failed'',
                     op_duration = clock w_end - start, op_timestamp = clock w_end,
                     op_success = False\<rparr>]\<rparr>,
               w_end))
   \<and> (failing_prefix e pre a (rate_limiter m) w = Some (rs, rl, w_end) \<longrightarrow>
          length rs = length pre \<and> Inr True \<notin> set rs
          \<and> consecutive_failures rl
              = consecutive_failures (rate_limiter m) + length (filter isl rs))
   \<and> consecutive_failures (record_success rl') = 0"
proof -
  have three: "run_strategies e ((n1, s1) # (n2, s2) # (n3, s3) # post) a start m w
        = (True,
           m\<lparr>rate_limiter := record_success rl3,
             operations := operations m @
               [\<lparr>op_asset_type = a, op_strategy = n3,
                 op_duration = clock w3 - start, op_timestamp = clock w3,
                 op_success = True\<rparr>]\<rparr>,
           w3)"
    if "try_strategy e s1 a (rate_limiter m) w = (r1, rl1, w1)" "r1 \<noteq> Inr True"
      "try_strategy e s2 a (after_failed r1 rl1) w1 = (r2, rl2, w2)" "r2 \<noteq> Inr True"
      "try_strategy e s3 a (after_failed r2 rl2) w2 = (Inr True, rl3, w3)"
  proof -
    have "failing_prefix e [(n1, s1), (n2, s2)] a (rate_limiter m) w
            = Some ([r1, r2], after_failed r2 rl2, w2)"
      using that by simp
    from failing_prefix_then_success [OF this that(5), of n3 post start]
    show ?thesis by simp
  qed
  show ?thesis
    using three failing_prefix_then_success [of e pre a m w rs rl w_end s rl' w' name post start]
      failing_prefix_all_failed [of e pre a m w rs rl w_end start]
      failing_prefix_answers [of e pre a "rate_limiter m" w rs rl w_end]
    by (simp add: record_success_def)
qed

theorem third_strategy_recorded_witness:
  "run_strategies (example_env (\<lambda>k q. Inl URLError))
     [(''first'', \<lambda>a w. (Inr False, w)),
      (''second'', \<lambda>a w. (Inl URLError, w\<lparr>clock := clock w + 5\<rparr>)),
      (''third'', \<lambda>a w. (Inr True, w\<lparr>clock := clock w + 7\<rparr>)),
      (''fourth'', \<lambda>a w. (Inr True, w))]
     ''military'' 1000 (DownloadManager_init DownloadConfig_default 1000) example_world
   = (True,
      (DownloadManager_init DownloadConfig_default 1000)
        \<lparr>rate_limiter := \<lparr>base_delay = Finite 30, last_request = 1120,
                           consecutive_failures = 0, total_requests = 3\<rparr>,
         operations := [\<lparr>op_asset_type = ''military'', op_strategy = ''third'',
                          op_duration = 127, op_timestamp = 1127, op_success = True\<rparr>]\<rparr>,
      example_world\<lparr>clock := 1127\<rparr>)
   \<and> run_strategies (example_env (\<lambda>k q. Inl URLError))
     [(''first'', \<lambda>a w. (Inr False, w)),
      (''second'', \<lambda>a w. (Inl URLError, w\<lparr>clock := clock w + 5\<rparr>))]
     ''military'' 1000 (DownloadManager_init DownloadConfig_default 1000) example_world
   = (False,
      (DownloadManager_init DownloadConfig_default 1000)
        \<lparr>rate_limiter := \<lparr>base_delay = Finite 30, last_request = 1030,
                           consecutive_failures = 1, total_requests = 2\<rparr>,
         operations := [\<lparr>op_asset_type = ''military'', op_strategy = ''all_failed'',
                          op_duration = 35, op_timestamp = 1035, op_success = False\<rparr>]\<rparr>,
      example_world\<lparr>clock := 1035\<rparr>)"
proof -
  let ?e = "example_env (\<lambda>k q. Inl URLError)"
  let ?m = "DownloadManager_init DownloadConfig_default 1000"
  let ?s1 = "\<lambda>(a::string) (w::world). (Inr False :: py_error + bool, w)"
  let ?s2 = "\<lambda>(a::string) (w::world). (Inl URLError :: py_error + bool, w\<lparr>clock := clock w + 5\<rparr>)"
  let ?s3 = "\<lambda>(a::string) (w::world). (Inr True :: py_error + bool, w\<lparr>clock := clock w + 7\<rparr>)"
  let ?rl1 = "\<lparr>base_delay = Finite 30, last_request = 1000,
               consecutive_failures = 0, total_requests = 1\<rparr>"
  let ?rl2 = "\<lparr>base_delay = Finite 30, last_request = 1030,
               consecutive_failures = 0, total_requests = 2\<rparr>"
  let ?rl3 = "\<lparr>base_delay = Finite 30, last_request = 1120,
               consecutive_failures = 1, total_requests = 3\<rparr>"
  have one: "try_strategy ?e ?s1 ''military'' (rate_limiter ?m) example_world
               = (Inr False, ?rl1, example_world\<lparr>clock := 1000\<rparr>)"
    by (simp add: try_strategy_def example_env_def wait_if_needed_def wait_time_def required_delay_def
        DownloadManager_init_def DownloadConfig_default_def RateLimiter_init_def
        example_world_def)
  have two: "try_strategy ?e ?s2 ''military'' (after_failed (Inr False) ?rl1)
               (example_world\<lparr>clock := 1000\<rparr>)
               = (Inl URLError, ?rl2, example_world\<lparr>clock := 1035\<rparr>)"
    by (simp add: try_strategy_def example_env_def wait_if_needed_def wait_time_def required_delay_def
        after_failed_def example_world_def)
  have three: "try_strategy ?e ?s3 ''military'' (after_failed (Inl URLError) ?rl2)
               (example_world\<lparr>clock := 1035\<rparr>)
               = (Inr True, ?rl3, example_world\<lparr>clock := 1127\<rparr>)"
    by (simp add: try_strategy_def example_env_def wait_if_needed_def wait_time_def required_delay_def
        after_failed_def record_failure_def example_world_def float_of_int_small
        float_mul_def round_double_numeral)
  have prefix: "failing_prefix ?e [(''first'', ?s1), (''second'', ?s2)] ''military''
                  (rate_limiter ?m) example_world
                  = Some ([Inr False, Inl URLError], after_failed (Inl URLError) ?rl2,
                          example_world\<lparr>clock := 1035\<rparr>)"
    using one two by simp
  note inst = third_strategy_recorded [of ?e ?s1 "''military''" ?m example_world "Inr False" ?rl1
      "example_world\<lparr>clock := 1000\<rparr>" ?s2 "Inl URLError" ?rl2
      "example_world\<lparr>clock := 1035\<rparr>" ?s3 ?rl3 "example_world\<lparr>clock := 1127\<rparr>"
      "''first''" "''second''" "''third''" "[(''fourth'', \<lambda>a w. (Inr True, w))]" 1000
      "[(''first'', ?s1), (''second'', ?s2)]" "[Inr False, Inl URLError]"
      "after_failed (Inl URLError) ?rl2" "example_world\<lparr>clock := 1035\<rparr>"
      ?s3 ?rl3 "example_world\<lparr>clock := 1127\<rparr>" "''third''"]
  show ?thesis
    using inst one two three prefix
    by (simp add: record_success_def after_failed_def record_failure_def
        DownloadManager_init_def)
qed

section \<open>The military download, requested twice\<close>

lemma save_geojson_world [simp]:
  "clock (save_geojson e features path a w) = clock w"
  "requests (save_geojson e features path a w) = requests w"
  "asset_dir (save_geojson e features path a w) path' =
     (if path' = path
      then Some \<lparr>st_mtime = clock w,
                 written = JObj
                   [(''type'', JStr ''FeatureCollection''),
                    (''features'', JArr features),
                    (''metadata'',
                       JObj [(''generated'', JStr (strftime_gmtime e (clock w))),
                             (''asset_type'', JStr a),
                             (''count'', JInt (int (length features)))])]\<rparr>
      else asset_dir w path')"
  by (simp_all add: save_geojson_def Let_def)

lemma military_regions_asset_dir:
  "asset_dir (snd (military_regions e regions acc w)) = asset_dir w
   \<and> clock (snd (military_regions e regions acc w)) = clock w"
proof (induction regions arbitrary: acc w)
  case Nil
  show ?case by simp
next
  case (Cons region rest)
  obtain region_name bbox where region: "region = (region_name, bbox)"
    by (cases region)
  obtain osm_data w1 where ex:
    "execute_query_with_retry e (military_query bbox) 3 w = (osm_data, w1)"
    by (cases "execute_query_with_retry e (military_query bbox) 3 w")
  have w1: "asset_dir w1 = asset_dir w \<and> clock w1 = clock w"
    using execute_query_asset_dir [of e "military_query bbox" w] by (simp add: ex)
  show ?case
    using Cons.IH [of _ w1] w1 by (simp add: region ex split: sum.splits)
qed

lemma chunked_download_never_caches:
  "asset_dir (snd (download_military_chunked e w)) ''military_cached.geojson''
     = asset_dir w ''military_cached.geojson''"
proof (cases "military_regions e EU_REGIONS [] w")
  case (Pair r w1)
  have "asset_dir w1 = asset_dir w"
    using military_regions_asset_dir [of e EU_REGIONS "[]" w] by (simp add: Pair)
  then show ?thesis
    by (cases r) (simp_all add: download_military_chunked_def Pair)
qed

lemma cached_download_misses:
  "asset_dir w (a @ ''_cached.geojson'') = None \<Longrightarrow> try_cached_download cfg a w = (Inr False, w)"
  by (simp add: try_cached_download_def)

lemma twelve_features:
  "features_of_response fos (JObj [(''elements'', JArr twelve_elements)])
     = Inr (feature_list fos (JObj [(''elements'', JArr twelve_elements)]))"
  "length (feature_list fos (JObj [(''elements'', JArr twelve_elements)])) = 9"
  "map feature_asset_type (feature_list fos (JObj [(''elements'', JArr twelve_elements)]))
     = replicate 9 (JStr ''military'')"
  by (simp_all add: process_defs twelve_elements_def osm_node_def osm_bare_def osm_way_def
      feature_asset_type_def numeral_eq_Suc)

lemma twelve_net_regions:
  assumes "length (requests w) = 0 \<or> length (requests w) = 5"
  shows "region_responses (example_env twelve_net) EU_REGIONS w
           = [JObj [(''elements'', JArr twelve_elements)],
              empty_result, empty_result, empty_result, empty_result]"
    and "region_attempts (example_env twelve_net) EU_REGIONS w = [Suc 0, Suc 0, Suc 0, Suc 0, Suc 0]"
  using assms
  by (auto simp: EU_REGIONS_def execute_query_unfold attempts.simps(2) Let_def example_env_def
      twelve_net_def)

lemma twelve_net_download:
  assumes "length (requests w) = 0 \<or> length (requests w) = 5"
  shows "download_military_chunked (example_env twelve_net) w
           = (None,
              save_geojson (example_env twelve_net)
                (feature_list (\<lambda>s. None) (JObj [(''elements'', JArr twelve_elements)]))
                ''military.geojson'' ''military''
                (w\<lparr>requests := requests w @ region_requests EU_REGIONS [Suc 0, Suc 0, Suc 0, Suc 0, Suc 0]\<rparr>))"
proof -
  have fos: "float_of_str (example_env twelve_net) = (\<lambda>s. None)"
    by (simp add: example_env_def)
  have accepted: "\<forall>d \<in> set (region_responses (example_env twelve_net) EU_REGIONS w).
      d \<noteq> empty_result \<longrightarrow>
      (\<exists>fs. features_of_response (float_of_str (example_env twelve_net)) d = Inr fs)"
    by (simp add: twelve_net_regions [OF assms] twelve_features(1))
  have none: "feature_list (\<lambda>s. None) empty_result = []"
    by (simp add: feature_list_def features_of_empty_result)
  show ?thesis
    by (simp add: download_military_chunked_run [OF accepted] twelve_net_regions [OF assms]
        fos none)
qed

lemma five_requests: "length (region_requests EU_REGIONS [Suc 0, Suc 0, Suc 0, Suc 0, Suc 0]) = 5"
  by (simp add: EU_REGIONS_def)

lemmas manager_defs =
  download_with_fallback_def strategies_def DownloadManager_init_def
  DownloadConfig_default_def RateLimiter_init_def
  try_cached_download_def try_optimized_download_def returning_True_def
  wait_if_needed_def wait_time_def required_delay_def record_success_def Let_def

lemma first_request:
  "download_with_fallback (example_env twelve_net) ''military''
     (DownloadManager_init DownloadConfig_default 1000) example_world
   = (True,
      (DownloadManager_init DownloadConfig_default 1000)
        \<lparr>rate_limiter := \<lparr>base_delay = Finite 30, last_request = 1030,
                           consecutive_failures = 0, total_requests = 2\<rparr>,
         operations := [\<lparr>op_asset_type = ''military'',
                          op_strategy = ''_try_optimized_download'',
                          op_duration = 30, op_timestamp = 1030, op_success = True\<rparr>]\<rparr>,
      save_geojson (example_env twelve_net)
        (feature_list (\<lambda>s. None) (JObj [(''elements'', JArr twelve_elements)]))
        ''military.geojson'' ''military''
        (example_world\<lparr>clock := 1030,
                       requests := region_requests EU_REGIONS [Suc 0, Suc 0, Suc 0, Suc 0, Suc 0]\<rparr>))"
proof -
  have dl: "download_military_chunked (example_env twelve_net) (example_world\<lparr>clock := 1030\<rparr>)
     = (None,
        save_geojson (example_env twelve_net)
          (feature_list (\<lambda>s. None) (JObj [(''elements'', JArr twelve_elements)]))
          ''military.geojson'' ''military''
          (example_world\<lparr>clock := 1030,
                         requests := region_requests EU_REGIONS [Suc 0, Suc 0, Suc 0, Suc 0, Suc 0]\<rparr>))"
    using twelve_net_download [of "example_world\<lparr>clock := 1030\<rparr>"]
    by (simp add: example_world_def)
  have w: "example_world\<lparr>clock := 1000\<rparr> = example_world"
    by (simp add: example_world_def)
  have no_file: "asset_dir example_world ''military_cached.geojson'' = None"
    by (simp add: example_world_def)
  have clock: "clock example_world = 1000"
    by (simp add: example_world_def)
  show ?thesis
    by (simp add: manager_defs w no_file clock dl)
qed


lemma second_request:
  "download_with_fallback (example_env twelve_net) ''military''
     ((DownloadManager_init DownloadConfig_default 1000)
        \<lparr>rate_limiter := \<lparr>base_delay = Finite 30, last_request = 1030,
                           consecutive_failures = 0, total_requests = 2\<rparr>,
         operations := [\<lparr>op_asset_type = ''military'',
                          op_strategy = ''_try_optimized_download'',
                          op_duration = 30, op_timestamp = 1030, op_success = True\<rparr>]\<rparr>)
     (save_geojson (example_env twelve_net)
        (feature_list (\<lambda>s. None) (JObj [(''elements'', JArr twelve_elements)]))
        ''military.geojson'' ''military''
        (example_world\<lparr>clock := 1030,
                       requests := region_requests EU_REGIONS [Suc 0, Suc 0, Suc 0, Suc 0, Suc 0]\<rparr>))
   = (True,
      (DownloadManager_init DownloadConfig_default 1000)
        \<lparr>rate_limiter := \<lparr>base_delay = Finite 30, last_request = 1090,
                           consecutive_failures = 0, total_requests = 4\<rparr>,
         operations := [\<lparr>op_asset_type = ''military'',
                          op_strategy = ''_try_optimized_download'',
                          op_duration = 30, op_timestamp = 1030, op_success = True\<rparr>,
                        \<lparr>op_asset_type = ''military'',
                          op_strategy = ''_try_optimized_download'',
                          op_duration = 60, op_timestamp = 1090, op_success = True\<rparr>]\<rparr>,
      save_geojson (example_env twelve_net)
        (feature_list (\<lambda>s. None) (JObj [(''elements'', JArr twelve_elements)]))
        ''military.geojson'' ''military''
        (save_geojson (example_env twelve_net)
           (feature_list (\<lambda>s. None) (JObj [(''elements'', JArr twelve_elements)]))
           ''military.geojson'' ''military''
           (example_world\<lparr>clock := 1030,
                          requests := region_requests EU_REGIONS [Suc 0, Suc 0, Suc 0, Suc 0, Suc 0]\<rparr>)
         \<lparr>clock := 1090,
           requests := region_requests EU_REGIONS [Suc 0, Suc 0, Suc 0, Suc 0, Suc 0]
                         @ region_requests EU_REGIONS [Suc 0, Suc 0, Suc 0, Suc 0, Suc 0]\<rparr>))"
proof -
  let ?w1 = "save_geojson (example_env twelve_net)
        (feature_list (\<lambda>s. None) (JObj [(''elements'', JArr twelve_elements)]))
        ''military.geojson'' ''military''
        (example_world\<lparr>clock := 1030,
                       requests := region_requests EU_REGIONS [Suc 0, Suc 0, Suc 0, Suc 0, Suc 0]\<rparr>)"
  have dl: "download_military_chunked (example_env twelve_net) (?w1\<lparr>clock := 1090\<rparr>)
     = (None,
        save_geojson (example_env twelve_net)
          (feature_list (\<lambda>s. None) (JObj [(''elements'', JArr twelve_elements)]))
          ''military.geojson'' ''military''
          (?w1\<lparr>clock := 1090,
               requests := region_requests EU_REGIONS [Suc 0, Suc 0, Suc 0, Suc 0, Suc 0]
                             @ region_requests EU_REGIONS [Suc 0, Suc 0, Suc 0, Suc 0, Suc 0]\<rparr>))"
    using twelve_net_download [of "?w1\<lparr>clock := 1090\<rparr>"] five_requests
    by simp
  have no_file: "asset_dir example_world ''military_cached.geojson'' = None"
    by (simp add: example_world_def)
  show ?thesis
    by (simp add: manager_defs no_file dl)
qed

text \<open>
  Claim C7, on the code. The manager has the default configuration, there is no file
  in the asset directory, and the network answers the first query of a download with
  twelve elements, three of them without coordinates, and the other queries with no
  elements. The first request for \<^verbatim>\<open>military\<close> succeeds through
  \<^verbatim>\<open>_try_optimized_download\<close> after five queries and saves nine features, each with
  \<^verbatim>\<open>asset_type\<close> \<^verbatim>\<open>military\<close>. It leaves no \<^verbatim>\<open>military_cached.geojson\<close>, the only file
  that \<^verbatim>\<open>_try_cached_download\<close> accepts; so the second request, made at once, runs
  \<^verbatim>\<open>_try_optimized_download\<close> again and sends five more queries.
\<close>

theorem military_second_request_refetches:
  "(let e = example_env twelve_net;
        first = download_with_fallback e ''military''
                  (DownloadManager_init DownloadConfig_default 1000) example_world;
        second = download_with_fallback e ''military'' (fst (snd first)) (snd (snd first))
    in fst first
       \<and> map op_strategy (operations (fst (snd first))) = [''_try_optimized_download'']
       \<and> length (requests (snd (snd first))) = 5
       \<and> length (saved_features (snd (snd first)) ''military.geojson'') = 9
       \<and> map feature_asset_type (saved_features (snd (snd first)) ''military.geojson'')
           = replicate 9 (JStr ''military'')
       \<and> asset_dir (snd (snd first)) ''military_cached.geojson'' = None
       \<and> fst second
       \<and> map op_strategy (operations (fst (snd second)))
           = [''_try_optimized_download'', ''_try_optimized_download'']
       \<and> length (requests (snd (snd second))) = 10
       \<and> saved_features (snd (snd second)) ''military.geojson''
           = saved_features (snd (snd first)) ''military.geojson'')"
proof -
  have no_file: "asset_dir example_world ''military_cached.geojson'' = None"
    by (simp add: example_world_def)
  show ?thesis
    unfolding Let_def first_request fst_conv snd_conv second_request
    by (simp add: saved_features_def py_get_def twelve_features five_requests no_file)
qed

end
